theory Spec2Isabelle
  imports Complex_Main "HOL-Library.Log_Nat"
begin

section \<open>Spectral model functions of astromodels/functions/apec.py\<close>

text \<open>
  The module defines four function classes: \<open>APEC\<close> and \<open>VAPEC\<close> turn an energy grid
  into bin edges and hand them to a pyatomdb session, \<open>PhAbs\<close> and \<open>TbAbs\<close> load a
  cross-section table from a FITS file and interpolate it.

  Conventions of the embedding.
  \<^item> A Python float and an element of a NumPy array of dtype float64 is a value of
    \<open>f64\<close>, an IEEE 754 double: a finite number with its sign, an infinity or NaN.
    Sums, differences, products and quotients are rounded to the nearest double, ties
    to even, and overflow to an infinity, as the hardware does; an energy grid is a
    one-dimensional array of doubles, a list of \<open>f64\<close>.
  \<^item> Python integers are \<^typ>\<open>int\<close>; indices and slice bounds are normalised as
    Python does (negative values count from the end).
  \<^item> Every exception is a value of \<open>error\<close>; a function that may raise returns
    \<open>error + 'a\<close>.
  \<^item> The pyatomdb session, the file system, the user data path and \<open>np.exp\<close> are not
    part of the module: they are parameters of the functions that use them.
\<close>

subsection \<open>Exceptions\<close>

datatype error =
    IndexError
  | ValueError
  | AttributeError
  | AssertionError
  | TypeError
  | KeyError
  | OSError

definition bindE :: "error + 'a \<Rightarrow> ('a \<Rightarrow> error + 'b) \<Rightarrow> error + 'b" where
  "bindE m f = (case m of Inl e \<Rightarrow> Inl e | Inr v \<Rightarrow> f v)"

subsection \<open>Doubles\<close>

text \<open>
  A finite double is a sign (\<open>True\<close> for minus) and a magnitude, a rational number
  that is \<open>0\<close> or \<open>m * 2 ^ e\<close> with \<open>m < 2 ^ 53\<close> and \<open>- 1074 \<le> e \<le> 971\<close>; both zeros
  exist. NaN is one value: its sign and payload are not told apart.
\<close>

datatype f64 = Finite bool rat | Infinity bool | NaN

text \<open>
  \<open>rne q\<close> is the integer nearest to \<open>q\<close>, the even one of two equally near.
  \<open>expo x\<close> is the exponent of the power of two at or below a positive \<open>x\<close>, that is
  \<open>\<lfloor>log\<^sub>2 x\<rfloor>\<close>, read off the lengths of numerator and denominator. Doubles between
  \<open>2 ^ e\<close> and \<open>2 ^ (e + 1)\<close> are \<open>2 ^ (e - 52)\<close> apart; below \<open>2 ^ - 1022\<close> (the
  subnormal range) they are \<open>2 ^ - 1074\<close> apart. \<open>round_mag x\<close> is the multiple of that
  spacing nearest to \<open>x \<ge> 0\<close>, and \<open>f64_round\<close> turns it into a double: a result of
  \<open>2 ^ 1024\<close> or more has overflowed.
\<close>

definition rne :: "rat \<Rightarrow> int" where
  "rne q =
     (let f = \<lfloor>q\<rfloor>; r = q - of_int f
      in if r < 1 / 2 then f else if 1 / 2 < r then f + 1 else if even f then f else f + 1)"

definition expo :: "rat \<Rightarrow> int" where
  "expo x =
     (let (p, q) = quotient_of x; d = bitlen p - bitlen q
      in if 2 powi d \<le> x then d else d - 1)"

definition binade :: "rat \<Rightarrow> int" where
  "binade x = max (expo x) (- 1022)"

definition spacing :: "rat \<Rightarrow> rat" where
  "spacing x = 2 powi (binade x - 52)"

definition round_mag :: "rat \<Rightarrow> rat" where
  "round_mag x = of_int (rne (x / spacing x)) * spacing x"

definition f64_round :: "bool \<Rightarrow> rat \<Rightarrow> f64" where
  "f64_round s m = (let r = round_mag m in if r < 2 ^ 1024 then Finite s r else Infinity s)"

definition sval :: "bool \<Rightarrow> rat \<Rightarrow> rat" where
  \<comment> \<open>the number a sign and a magnitude stand for\<close>
  "sval s m = (if s then - m else m)"

definition round_signed :: "bool \<Rightarrow> rat \<Rightarrow> f64" where
  \<comment> \<open>the double nearest to the number \<open>v\<close>; \<open>zs\<close> is the sign of the zero when \<open>v = 0\<close>\<close>
  "round_signed zs v = (if v = 0 then Finite zs 0 else f64_round (v < 0) \<bar>v\<bar>)"

definition float_literal :: "rat \<Rightarrow> f64" where
  \<comment> \<open>a decimal literal of the source, such as \<open>1e-14\<close>: the double nearest to it\<close>
  "float_literal q = round_signed False q"

definition is_f64 :: "f64 \<Rightarrow> bool" where
  \<comment> \<open>the magnitude of a finite value is that of a double\<close>
  "is_f64 v =
     (case v of Finite s m \<Rightarrow> 0 \<le> m \<and> m < 2 ^ 1024 \<and> round_mag m = m | _ \<Rightarrow> True)"

fun fneg :: "f64 \<Rightarrow> f64" where
  "fneg (Finite s m) = Finite (\<not> s) m"
| "fneg (Infinity s) = Infinity (\<not> s)"
| "fneg NaN = NaN"

text \<open>
  An exact sum of \<open>0\<close> has the sign of the operands if they agree, and is \<open>+0\<close>
  otherwise; a product or quotient has the signs' exclusive or, also when it is zero.
\<close>

fun fadd :: "f64 \<Rightarrow> f64 \<Rightarrow> f64" where
  "fadd (Finite s a) (Finite t b) = round_signed (s \<and> t) (sval s a + sval t b)"
| "fadd (Finite s a) (Infinity t) = Infinity t"
| "fadd (Infinity s) (Finite t b) = Infinity s"
| "fadd (Infinity s) (Infinity t) = (if s = t then Infinity s else NaN)"
| "fadd NaN _ = NaN"
| "fadd _ NaN = NaN"

definition fsub :: "f64 \<Rightarrow> f64 \<Rightarrow> f64" where
  "fsub a b = fadd a (fneg b)"

fun fmul :: "f64 \<Rightarrow> f64 \<Rightarrow> f64" where
  "fmul (Finite s a) (Finite t b) = f64_round (s \<noteq> t) (a * b)"
| "fmul (Finite s a) (Infinity t) = (if a = 0 then NaN else Infinity (s \<noteq> t))"
| "fmul (Infinity s) (Finite t b) = (if b = 0 then NaN else Infinity (s \<noteq> t))"
| "fmul (Infinity s) (Infinity t) = Infinity (s \<noteq> t)"
| "fmul NaN _ = NaN"
| "fmul _ NaN = NaN"

fun fdiv :: "f64 \<Rightarrow> f64 \<Rightarrow> f64" where
  "fdiv (Finite s a) (Finite t b) =
     (if b = 0 then (if a = 0 then NaN else Infinity (s \<noteq> t)) else f64_round (s \<noteq> t) (a / b))"
| "fdiv (Finite s a) (Infinity t) = Finite (s \<noteq> t) 0"
| "fdiv (Infinity s) (Finite t b) = Infinity (s \<noteq> t)"
| "fdiv (Infinity s) (Infinity t) = NaN"
| "fdiv NaN _ = NaN"
| "fdiv _ NaN = NaN"

text \<open>The comparisons \<open><\<close>, \<open><=\<close> and \<open>==\<close>: false whenever an operand is NaN.\<close>

fun flt :: "f64 \<Rightarrow> f64 \<Rightarrow> bool" where
  "flt (Finite s a) (Finite t b) = (sval s a < sval t b)"
| "flt (Finite s a) (Infinity t) = (\<not> t)"
| "flt (Infinity s) (Finite t b) = s"
| "flt (Infinity s) (Infinity t) = (s \<and> \<not> t)"
| "flt NaN _ = False"
| "flt _ NaN = False"

fun fle :: "f64 \<Rightarrow> f64 \<Rightarrow> bool" where
  "fle (Finite s a) (Finite t b) = (sval s a \<le> sval t b)"
| "fle (Finite s a) (Infinity t) = (\<not> t)"
| "fle (Infinity s) (Finite t b) = s"
| "fle (Infinity s) (Infinity t) = (s \<or> \<not> t)"
| "fle NaN _ = False"
| "fle _ NaN = False"

fun feq :: "f64 \<Rightarrow> f64 \<Rightarrow> bool" where
  "feq (Finite s a) (Finite t b) = (sval s a = sval t b)"
| "feq (Infinity s) (Infinity t) = (s = t)"
| "feq _ _ = False"

fun is_nan :: "f64 \<Rightarrow> bool" where
  "is_nan NaN = True"
| "is_nan _ = False"

subsection \<open>The NumPy operations the module uses\<close>

text \<open>
  \<open>py_index n i\<close> is the position that index \<open>i\<close> denotes in a sequence of length
  \<open>n\<close>, if any: \<open>a[i]\<close> raises IndexError unless \<open>-n \<le> i < n\<close>.
\<close>

definition py_index :: "nat \<Rightarrow> int \<Rightarrow> nat option" where
  "py_index n i =
     (let j = (if i < 0 then i + int n else i)
      in if 0 \<le> j \<and> j < int n then Some (nat j) else None)"

definition np_get :: "'a list \<Rightarrow> int \<Rightarrow> error + 'a" where
  "np_get a i = (case py_index (length a) i of None \<Rightarrow> Inl IndexError | Some j \<Rightarrow> Inr (a ! j))"

definition np_set :: "'a list \<Rightarrow> int \<Rightarrow> 'a \<Rightarrow> error + 'a list" where
  "np_set a i v =
     (case py_index (length a) i of None \<Rightarrow> Inl IndexError | Some j \<Rightarrow> Inr (a[j := v]))"

text \<open>
  A slice bound never raises: a negative bound counts from the end, and the result is
  clamped to \<open>0 .. n\<close>.
\<close>

definition py_bound :: "nat \<Rightarrow> int \<Rightarrow> nat" where
  "py_bound n k = (if k < 0 then nat (k + int n) else min n (nat k))"

definition np_slice_to :: "'a list \<Rightarrow> int \<Rightarrow> 'a list" where
  \<comment> \<open>\<open>a[:k]\<close>\<close>
  "np_slice_to a k = take (py_bound (length a) k) a"

definition np_set_slice :: "'a list \<Rightarrow> int \<Rightarrow> int \<Rightarrow> 'a list \<Rightarrow> error + 'a list" where
  \<comment> \<open>\<open>a[lo:hi] = v\<close>: the shapes must agree, or \<open>v\<close> has one element and is broadcast\<close>
  "np_set_slice a lo hi v =
     (let l = py_bound (length a) lo;
          h = py_bound (length a) hi;
          m = h - l
      in if length v = m then Inr (take l a @ v @ drop (l + m) a)
         else if length v = 1 then Inr (take l a @ replicate m (hd v) @ drop (l + m) a)
         else Inl ValueError)"

definition np_roll :: "'a list \<Rightarrow> int \<Rightarrow> 'a list" where
  \<comment> \<open>\<open>np.roll(a, s)\<close>: the element at position \<open>i\<close> moves to \<open>(i + s) mod n\<close>\<close>
  "np_roll a s = rotate (nat ((- s) mod int (length a))) a"

definition np_empty :: "(nat \<Rightarrow> f64) \<Rightarrow> int \<Rightarrow> error + f64 list" where
  \<comment> \<open>\<open>np.empty(n)\<close>: \<open>n\<close> cells of uninitialised memory, whose contents are \<open>junk\<close>\<close>
  "np_empty junk n = (if n < 0 then Inl ValueError else Inr (map junk [0 ..< nat n]))"

definition np_binop ::
  "(f64 \<Rightarrow> f64 \<Rightarrow> f64) \<Rightarrow> f64 list \<Rightarrow> f64 list \<Rightarrow> error + f64 list" where
  \<comment> \<open>an elementwise operation on two one-dimensional arrays, with broadcasting\<close>
  "np_binop f a b =
     (if length a = length b then Inr (map2 f a b)
      else if length a = 1 then Inr (map (f (hd a)) b)
      else if length b = 1 then Inr (map (\<lambda>u. f u (hd b)) a)
      else Inl ValueError)"

subsection \<open>Bin edges of an energy grid (APEC.evaluate, VAPEC.evaluate)\<close>

text \<open>
  Lines 73 to 87 of \<open>APEC.evaluate\<close> and lines 153 to 167 of \<open>VAPEC.evaluate\<close> are the
  same text. \<open>redshifted\<close> is line 75 (\<open>xz\<close>), \<open>ebplus\<close> is line 77, and \<open>bin_edges\<close>
  is the whole passage, returning the locals \<open>ebounds\<close> and \<open>binsize\<close>. In
  \<open>xz[0] - (ebplus[0] - xz[0])\<close> Python reads \<open>xz[0]\<close> first.
\<close>

definition redshifted :: "f64 list \<Rightarrow> f64 \<Rightarrow> f64 list" where
  "redshifted x redshift = map (\<lambda>e. fmul e (fadd (float_literal 1) redshift)) x"

definition ebplus :: "f64 list \<Rightarrow> int \<Rightarrow> error + f64 list" where
  "ebplus xz nval =
     bindE (np_binop fadd (np_roll xz (- 1)) xz) (\<lambda>sm.
       Inr (map (\<lambda>e. fdiv e (float_literal 2)) (np_slice_to sm (nval - 1))))"

definition bin_edges :: "(nat \<Rightarrow> f64) \<Rightarrow> f64 list \<Rightarrow> f64 \<Rightarrow> error + (f64 list \<times> f64 list)" where
  "bin_edges junk x redshift =
     (let nval = int (length x);
          xz = redshifted x redshift
      in bindE (ebplus xz nval) (\<lambda>ebp.
         bindE (np_empty junk (nval + 1)) (\<lambda>ebounds0.
         bindE (np_set_slice ebounds0 1 nval ebp) (\<lambda>ebounds1.
         bindE (np_get xz 0) (\<lambda>a.
         bindE (np_get ebp 0) (\<lambda>b.
         bindE (np_get xz 0) (\<lambda>c.
         bindE (np_set ebounds1 0 (fsub a (fsub b c))) (\<lambda>ebounds2.
         bindE (np_get xz (nval - 1)) (\<lambda>d.
         bindE (np_get xz (nval - 1)) (\<lambda>e.
         bindE (np_get ebp (nval - 2)) (\<lambda>f.
         bindE (np_set ebounds2 nval (fadd d (fsub e f))) (\<lambda>ebounds.
         bindE (np_binop fsub (np_roll ebounds (- 1)) ebounds) (\<lambda>df.
         Inr (ebounds, np_slice_to df nval))))))))))))))"

subsection \<open>The pyatomdb session\<close>

text \<open>
  \<open>pyatomdb.spectrum.CIESession\<close> belongs to an external library. The module
  constructs a session and calls three of its methods; what they compute is not known
  here, so a session is a state of an arbitrary type \<open>'s\<close> and the four operations are
  a parameter of the model. Each method takes the session's state and returns the new
  one; they are taken to return normally, and \<open>return_spectrum\<close> to return a
  one-dimensional array of doubles.
\<close>

record 's pyatomdb =
  CIESession :: "string \<Rightarrow> 's"
  set_response :: "f64 list \<Rightarrow> bool \<Rightarrow> 's \<Rightarrow> 's"
  set_abund :: "int list \<Rightarrow> f64 \<Rightarrow> 's \<Rightarrow> 's"
  return_spectrum :: "f64 \<Rightarrow> 's \<Rightarrow> f64 list \<times> 's"

text \<open>
  A session that only records the calls made on it, and answers \<open>return_spectrum\<close>
  with \<open>spectrum\<close> applied to the calls so far. It instantiates the parameter where a
  concrete session is needed.
\<close>

datatype call =
    New string
  | SetResponse "f64 list" bool
  | SetAbund "int list" f64
  | ReturnSpectrum f64

definition recording_session :: "(call list \<Rightarrow> f64 \<Rightarrow> f64 list) \<Rightarrow> call list pyatomdb" where
  "recording_session spectrum =
     \<lparr> CIESession = (\<lambda>abundset. [New abundset]),
       set_response = (\<lambda>ebounds raw s. s @ [SetResponse ebounds raw]),
       set_abund = (\<lambda>elements abund s. s @ [SetAbund elements abund]),
       return_spectrum = (\<lambda>kT s. (spectrum s kT, s @ [ReturnSpectrum kT])) \<rparr>"

subsection \<open>APEC and VAPEC\<close>

text \<open>
  The only attribute the two classes assign is \<open>session\<close> (in \<open>init_session\<close>); \<open>None\<close>
  stands for an instance on which \<open>init_session\<close> has not run, where reading
  \<open>self.session\<close> raises AttributeError. The field holds the session object, that is
  its state: \<open>evaluate\<close> never assigns the attribute, but the three methods it calls on
  the object change the object's state, which is what the field holds afterwards. The
  parameters \<open>K\<close>, \<open>kT\<close>, \<open>abund\<close> and \<open>redshift\<close> reach \<open>evaluate\<close> as arguments.
  Whatever else the host framework keeps on the instance is the record's extension.
\<close>

record 's APEC =
  session :: "'s option"

definition APEC_init_session ::
  "'s pyatomdb \<Rightarrow> ('s, 'm) APEC_scheme \<Rightarrow> string \<Rightarrow> ('s, 'm) APEC_scheme" where
  "APEC_init_session api self abund_table =
     self\<lparr>session := Some (CIESession api abund_table)\<rparr>"

definition APEC_evaluate ::
  "'s pyatomdb \<Rightarrow> (nat \<Rightarrow> f64) \<Rightarrow> ('s, 'm) APEC_scheme \<Rightarrow> f64 list \<Rightarrow> f64 \<Rightarrow> f64 \<Rightarrow> f64 \<Rightarrow> f64
     \<Rightarrow> (error + f64 list) \<times> ('s, 'm) APEC_scheme" where
  "APEC_evaluate api junk self x K kT abund redshift =
     (case session self of
        None \<Rightarrow> (Inl AttributeError, self)
      | Some sess \<Rightarrow>
          (case bin_edges junk x redshift of
             Inl err \<Rightarrow> (Inl err, self)
           | Inr (ebounds, binsize) \<Rightarrow>
               (let s1 = set_response api ebounds True sess;
                    s2 = set_abund api
                           [6, 7, 8, 9, 10, 11, 12, 13, 14, 16, 17, 18, 19, 20, 21, 22, 23, 24,
                            25, 26, 27, 28, 29, 30] abund s1;
                    (sp, s3) = return_spectrum api kT s2
                in (bindE (np_binop fdiv sp binsize) (\<lambda>q.
                      Inr (map (\<lambda>v. fmul K v)
                             (map (\<lambda>v. fdiv v (float_literal (1 / 10 ^ 14))) q))),
                    self\<lparr>session := Some s3\<rparr>))))"

definition VAPEC_init_session ::
  "'s pyatomdb \<Rightarrow> ('s, 'm) APEC_scheme \<Rightarrow> string \<Rightarrow> ('s, 'm) APEC_scheme" where
  "VAPEC_init_session api self abund_table =
     self\<lparr>session := Some (CIESession api abund_table)\<rparr>"

definition VAPEC_evaluate ::
  "'s pyatomdb \<Rightarrow> (nat \<Rightarrow> f64) \<Rightarrow> ('s, 'm) APEC_scheme \<Rightarrow> f64 list \<Rightarrow> f64 \<Rightarrow> f64 \<Rightarrow> f64 \<Rightarrow> f64
     \<Rightarrow> (error + f64 list) \<times> ('s, 'm) APEC_scheme" where
  "VAPEC_evaluate api junk self x K kT abund redshift =
     (case session self of
        None \<Rightarrow> (Inl AttributeError, self)
      | Some sess \<Rightarrow>
          (case bin_edges junk x redshift of
             Inl err \<Rightarrow> (Inl err, self)
           | Inr (ebounds, binsize) \<Rightarrow>
               (let s1 = set_response api ebounds True sess;
                    s2 = set_abund api
                           [3, 4, 5, 6, 7, 8, 9, 10, 11, 12, 13, 14, 16, 17, 18, 19, 20, 21, 22,
                            23, 24, 25, 26, 27, 28, 29, 30] abund s1;
                    (sp, s3) = return_spectrum api kT s2
                in (bindE (np_binop fdiv sp binsize) (\<lambda>q.
                      Inr (map (\<lambda>v. fmul K v)
                             (map (\<lambda>v. fdiv v (float_literal (1 / 10 ^ 14))) q))),
                    self\<lparr>session := Some s3\<rparr>))))"

subsection \<open>Cross-section tables: files and interpolation\<close>

text \<open>
  A FITS file is a list of header-data units; the data of a unit is absent (\<open>None\<close>) or
  a table, a map from a column's name to the column. \<open>fits.open\<close> reads the file
  system, a map from paths to files, and raises OSError where the path has no readable
  file. The events of a call are the lines printed and the files opened, in order.
\<close>

record hdu =
  data :: "(string \<rightharpoonup> f64 list) option"

datatype event = Print string | Open string

definition fits_open :: "(string \<rightharpoonup> hdu list) \<Rightarrow> string \<Rightarrow> error + hdu list" where
  "fits_open files path = (case files path of None \<Rightarrow> Inl OSError | Some f \<Rightarrow> Inr f)"

definition hdu_get :: "hdu list \<Rightarrow> int \<Rightarrow> error + hdu" where
  \<comment> \<open>\<open>fxs[i]\<close>\<close>
  "hdu_get fxs i = (case py_index (length fxs) i of None \<Rightarrow> Inl IndexError | Some j \<Rightarrow> Inr (fxs ! j))"

definition os_path_join :: "string \<Rightarrow> string \<Rightarrow> string" where
  \<comment> \<open>\<open>os.path.join(a, b)\<close> of two components, on a POSIX system\<close>
  "os_path_join a b =
     (if b \<noteq> [] \<and> hd b = CHR ''/'' then b
      else if a = [] \<or> last a = CHR ''/'' then a @ b
      else a @ ''/'' @ b)"

text \<open>
  Modelled from the spec: \<open>np.interp\<close> is NumPy's, not this module's. The definition
  follows what the claim and NumPy's documentation say of it for increasing sample
  points \<open>xp\<close>, with the arithmetic and the comparisons of doubles. It raises
  ValueError on an empty table or on columns of different lengths. A table of one
  sample gives its value everywhere. Otherwise a NaN is passed through; a point left of
  the table gets the first value, a point right of it the last; elsewhere the search
  returns the index \<open>j\<close> of the last sample point not above the point, and the value is
  \<open>fp[j]\<close> at the last index and at a sample point, \<open>slope * (x - xp[j]) + fp[j]\<close> in
  between, each operation rounded. Where that is NaN the line is evaluated from the
  right end, \<open>slope * (x - xp[j+1]) + fp[j+1]\<close>, and \<open>fp[j]\<close> is the value if this is NaN
  too and the two ends are equal. (For a table that is not increasing NumPy promises
  nothing; the search below is its linear one.)
\<close>

definition binary_search_with_guess :: "f64 \<Rightarrow> f64 list \<Rightarrow> int" where
  "binary_search_with_guess key arr =
     (if flt (last arr) key then int (length arr)
      else if flt key (hd arr) then - 1
      else int (length (takeWhile (\<lambda>a. fle a key) (tl arr))))"

definition interp1 :: "f64 list \<Rightarrow> f64 list \<Rightarrow> f64 \<Rightarrow> f64" where
  "interp1 xp fp x_val =
     (if length xp = 1 then hd fp
      else if is_nan x_val then x_val
      else
        (let j = binary_search_with_guess x_val xp;
             lenxp = int (length xp)
         in if j = - 1 then hd fp
            else if j = lenxp then last fp
            else if j = lenxp - 1 then fp ! nat j
            else if feq (xp ! nat j) x_val then fp ! nat j
            else
              (let slope = fdiv (fsub (fp ! nat (j + 1)) (fp ! nat j))
                                (fsub (xp ! nat (j + 1)) (xp ! nat j));
                   r = fadd (fmul slope (fsub x_val (xp ! nat j))) (fp ! nat j)
               in if is_nan r then
                    (let r2 = fadd (fmul slope (fsub x_val (xp ! nat (j + 1)))) (fp ! nat (j + 1))
                     in if is_nan r2 \<and> feq (fp ! nat j) (fp ! nat (j + 1)) then fp ! nat j else r2)
                  else r)))"

definition np_interp :: "f64 list \<Rightarrow> f64 list \<Rightarrow> f64 list \<Rightarrow> error + f64 list" where
  "np_interp x xp fp =
     (if xp = [] then Inl ValueError
      else if length fp \<noteq> length xp then Inl ValueError
      else Inr (map (interp1 xp fp) x))"

subsection \<open>PhAbs and TbAbs\<close>

text \<open>
  Both classes assign the attributes \<open>xsect_ene\<close> and \<open>xsect_val\<close> in \<open>init_xsect\<close> and
  read them in \<open>evaluate\<close>. An attribute is unset (reading it raises AttributeError),
  \<open>None\<close> (the assertion fails) or an array. \<open>configuration.get_user_data_path()\<close> is
  not in the module: its result is the parameter \<open>user_data_path\<close>. \<open>np.exp\<close> is
  NumPy's and what it returns for a double is the platform's: it is the parameter
  \<open>np_exp\<close>.

  Lines 213 to 215 of \<open>PhAbs.init_xsect\<close> and 260 to 262 of \<open>TbAbs.init_xsect\<close> are the same
  text; with the \<open>fits.open\<close> before them they are \<open>open_xsect\<close>, which returns the
  outcome, the instance and the events (\<open>pre\<close> is what was printed before). The
  instance is returned on an error too: \<open>xsect_ene\<close> is assigned before \<open>SIGMA\<close> is
  looked up.
\<close>

datatype attr = Unset | PyNone | Array "f64 list"

record PhAbs =
  xsect_ene :: attr
  xsect_val :: attr

type_synonym TbAbs = PhAbs

definition open_xsect ::
  "(string \<rightharpoonup> hdu list) \<Rightarrow> string \<Rightarrow> event list \<Rightarrow> PhAbs \<Rightarrow> (error + unit) \<times> PhAbs \<times> event list" where
  "open_xsect files path pre self =
     (case fits_open files path of
        Inl err \<Rightarrow> (Inl err, self, pre @ [Open path])
      | Inr fxs \<Rightarrow>
          (case hdu_get fxs 1 of
             Inl err \<Rightarrow> (Inl err, self, pre @ [Open path])
           | Inr h \<Rightarrow>
               (case data h of
                  None \<Rightarrow> (Inl TypeError, self, pre @ [Open path])
                | Some dxs \<Rightarrow>
                    (case dxs ''ENERGY'' of
                       None \<Rightarrow> (Inl KeyError, self, pre @ [Open path])
                     | Some ene \<Rightarrow>
                         (case dxs ''SIGMA'' of
                            None \<Rightarrow> (Inl KeyError, self\<lparr>xsect_ene := Array ene\<rparr>, pre @ [Open path])
                          | Some val \<Rightarrow>
                              (Inr (), self\<lparr>xsect_ene := Array ene, xsect_val := Array val\<rparr>,
                               pre @ [Open path]))))))"

definition PhAbs_init_xsect ::
  "string \<Rightarrow> (string \<rightharpoonup> hdu list) \<Rightarrow> PhAbs \<Rightarrow> string \<Rightarrow> (error + unit) \<times> PhAbs \<times> event list" where
  "PhAbs_init_xsect user_data_path files self abund_table =
     (let path_to_xsect = os_path_join user_data_path ''xsect''
      in if abund_table = ''AG89'' then
           open_xsect files (path_to_xsect @ ''/xsect_phabs_angr.fits'') [] self
         else if abund_table = ''ASPL'' then
           open_xsect files (path_to_xsect @ ''/xsect_phabs_aspl.fits'') [] self
         else
           open_xsect files (path_to_xsect @ ''/xsect_phabs_angr.fits'')
             [Print (''Unknown abundace table '' @ abund_table @ '', reverting to AG89'')] self)"

definition PhAbs_evaluate ::
  "(f64 \<Rightarrow> f64) \<Rightarrow> PhAbs \<Rightarrow> f64 list \<Rightarrow> f64 \<Rightarrow> (error + f64 list) \<times> PhAbs" where
  "PhAbs_evaluate np_exp self x NH =
     (case xsect_ene self of
        Unset \<Rightarrow> (Inl AttributeError, self)
      | PyNone \<Rightarrow> (Inl AssertionError, self)
      | Array ene \<Rightarrow>
          (case xsect_val self of
             Unset \<Rightarrow> (Inl AttributeError, self)
           | PyNone \<Rightarrow> (Inl AssertionError, self)
           | Array val \<Rightarrow>
               (bindE (np_interp x ene val) (\<lambda>xsect_interp.
                  Inr (map (\<lambda>s. np_exp (fmul (fneg NH) s)) xsect_interp)), self)))"

definition TbAbs_init_xsect ::
  "string \<Rightarrow> (string \<rightharpoonup> hdu list) \<Rightarrow> TbAbs \<Rightarrow> string \<Rightarrow> (error + unit) \<times> TbAbs \<times> event list" where
  "TbAbs_init_xsect user_data_path files self abund_table =
     (let path_to_xsect = os_path_join user_data_path ''xsect''
      in if abund_table = ''AG89'' then
           open_xsect files (path_to_xsect @ ''/xsect_tbabs_angr.fits'') [] self
         else if abund_table = ''ASPL'' then
           open_xsect files (path_to_xsect @ ''/xsect/xsect_tbabs_aspl.fits'') [] self
         else if abund_table = ''WILM'' then
           open_xsect files (path_to_xsect @ ''/xsect/xsect_tbabs_wilm.fits'') [] self
         else
           open_xsect files (path_to_xsect @ ''/xsect/xsect_tbabs_wilm.fits'')
             [Print (''Unknown abundace table '' @ abund_table @ '', reverting to WILM'')] self)"

definition TbAbs_evaluate ::
  "(f64 \<Rightarrow> f64) \<Rightarrow> TbAbs \<Rightarrow> f64 list \<Rightarrow> f64 \<Rightarrow> (error + f64 list) \<times> TbAbs" where
  "TbAbs_evaluate np_exp self x NH =
     (case xsect_ene self of
        Unset \<Rightarrow> (Inl AttributeError, self)
      | PyNone \<Rightarrow> (Inl AssertionError, self)
      | Array ene \<Rightarrow>
          (case xsect_val self of
             Unset \<Rightarrow> (Inl AttributeError, self)
           | PyNone \<Rightarrow> (Inl AssertionError, self)
           | Array val \<Rightarrow>
               (bindE (np_interp x ene val) (\<lambda>xsect_interp.
                  Inr (map (\<lambda>s. np_exp (fmul (fneg NH) s)) xsect_interp)), self)))"

subsection \<open>Closed forms used in the proofs\<close>

text \<open>
  What \<open>ebplus\<close>, \<open>ebounds\<close> and \<open>binsize\<close> are, position by position, for a grid
  \<open>xz\<close> with at least two points.
\<close>

definition ebplus_cf :: "f64 list \<Rightarrow> f64 list" where
  "ebplus_cf xz =
     map (\<lambda>i. fdiv (fadd (xz ! Suc i) (xz ! i)) (float_literal 2)) [0 ..< length xz - 1]"

definition ebounds_cf :: "f64 list \<Rightarrow> f64 list" where
  "ebounds_cf xz =
     fsub (xz ! 0) (fsub (ebplus_cf xz ! 0) (xz ! 0)) # ebplus_cf xz @
     [fadd (xz ! (length xz - 1)) (fsub (xz ! (length xz - 1)) (ebplus_cf xz ! (length xz - 2)))]"

definition binsize_cf :: "f64 list \<Rightarrow> f64 list" where
  "binsize_cf xz = map (\<lambda>i. fsub (ebounds_cf xz ! Suc i) (ebounds_cf xz ! i)) [0 ..< length xz]"

section \<open>Properties\<close>

subsection \<open>Rounding\<close>

text \<open>
  \<open>expo\<close> is the binary exponent, rounding is monotone, and the magnitudes of doubles
  are the numbers it leaves unchanged.
\<close>

lemma rne_of_int [simp]: "rne (of_int n) = n"
  by (simp add: rne_def)

lemma rne_mono: assumes "q \<le> q'" shows "rne q \<le> rne q'"
proof -
  have f: "\<lfloor>q\<rfloor> \<le> \<lfloor>q'\<rfloor>" using assms by (rule floor_mono)
  have l: "\<lfloor>q\<rfloor> \<le> rne q" "rne q \<le> \<lfloor>q\<rfloor> + 1" "\<lfloor>q'\<rfloor> \<le> rne q'"
    by (auto simp: rne_def Let_def)
  show ?thesis
  proof (cases "\<lfloor>q\<rfloor> = \<lfloor>q'\<rfloor>")
    case True
    then show ?thesis using assms by (auto simp: rne_def Let_def)
  next
    case False
    then have "\<lfloor>q\<rfloor> + 1 \<le> \<lfloor>q'\<rfloor>" using f by simp
    then show ?thesis using l by linarith
  qed
qed

lemma rne_ge: "of_int n \<le> q \<Longrightarrow> n \<le> rne q"
  using rne_mono[of "of_int n" q] by simp

lemma rne_le: "q \<le> of_int n \<Longrightarrow> rne q \<le> n"
  using rne_mono[of q "of_int n"] by simp

lemma expo_bounds:
  assumes "0 < x"
  shows "2 powi (expo x) \<le> x" and "x < 2 powi (expo x + 1)"
proof -
  obtain p q where pq: "quotient_of x = (p, q)" by (cases "quotient_of x")
  have q: "0 < q" using quotient_of_denom_pos[OF pq] .
  have x: "x = of_int p / of_int q" using quotient_of_div[OF pq] .
  have p: "0 < p" using assms q unfolding x by (simp add: zero_less_divide_iff)
  define bp where "bp = bitlen p"
  define bq where "bq = bitlen q"
  have bp: "1 \<le> bp" "2 powi (bp - 1) \<le> (of_int p :: rat)" "(of_int p :: rat) < 2 powi bp"
  proof -
    show 1: "1 \<le> bp" using p bitlen_eq_zero_iff[of p] bitlen_nonneg[of p] unfolding bp_def by linarith
    have "2 ^ nat (bp - 1) \<le> p" "p < 2 ^ nat bp" using bitlen_bounds[OF p] unfolding bp_def by auto
    then have "(of_int (2 ^ nat (bp - 1)) :: rat) \<le> of_int p" "(of_int p :: rat) < of_int (2 ^ nat bp)"
      by (simp_all only: of_int_le_iff of_int_less_iff)
    then show "2 powi (bp - 1) \<le> (of_int p :: rat)" "(of_int p :: rat) < 2 powi bp"
      using 1 by (simp_all add: power_int_def)
  qed
  have bq: "1 \<le> bq" "2 powi (bq - 1) \<le> (of_int q :: rat)" "(of_int q :: rat) < 2 powi bq"
  proof -
    show 1: "1 \<le> bq" using q bitlen_eq_zero_iff[of q] bitlen_nonneg[of q] unfolding bq_def by linarith
    have "2 ^ nat (bq - 1) \<le> q" "q < 2 ^ nat bq" using bitlen_bounds[OF q] unfolding bq_def by auto
    then have "(of_int (2 ^ nat (bq - 1)) :: rat) \<le> of_int q" "(of_int q :: rat) < of_int (2 ^ nat bq)"
      by (simp_all only: of_int_le_iff of_int_less_iff)
    then show "2 powi (bq - 1) \<le> (of_int q :: rat)" "(of_int q :: rat) < 2 powi bq"
      using 1 by (simp_all add: power_int_def)
  qed
  have qq: "(0::rat) < of_int q" using q by simp
  have up: "x < 2 powi (bp - bq + 1)"
  proof -
    have "x < 2 powi bp / of_int q" unfolding x using bp(3) qq by (simp add: divide_strict_right_mono)
    also have "\<dots> \<le> 2 powi bp / 2 powi (bq - 1)"
      using bq(2) qq by (intro divide_left_mono) (simp_all add: zero_less_mult_iff)
    also have "\<dots> = 2 powi (bp - bq + 1)"
      by (simp add: power_int_diff power_int_add)
    finally show ?thesis .
  qed
  have lo: "2 powi (bp - bq - 1) < x"
  proof -
    have "2 powi (bp - bq - 1) = 2 powi (bp - 1) / (2 powi bq :: rat)"
      by (simp add: power_int_diff)
    also have "\<dots> < 2 powi (bp - 1) / of_int q"
      using bq(3) qq by (intro divide_strict_left_mono) simp_all
    also have "\<dots> \<le> x" unfolding x using bp(2) qq by (simp add: divide_right_mono)
    finally show ?thesis .
  qed
  have e: "expo x = (if 2 powi (bp - bq) \<le> x then bp - bq else bp - bq - 1)"
    by (simp add: expo_def pq bp_def bq_def Let_def)
  show "2 powi (expo x) \<le> x" using lo unfolding e by auto
  show "x < 2 powi (expo x + 1)" using up unfolding e by (auto simp: not_le)
qed

lemma p2_mono: "a \<le> b \<Longrightarrow> (2::rat) powi a \<le> 2 powi b"
  by (rule power_int_increasing) simp_all

lemma p2_lessD: "(2::rat) powi a < 2 powi b \<Longrightarrow> a < b"
  using p2_mono[of b a] by (cases "a < b") auto

lemma p2_leD: "(2::rat) powi a \<le> 2 powi b \<Longrightarrow> a \<le> b"
  using power_int_strict_increasing[of b a "2::rat"] by (cases "a \<le> b") auto

lemma p2_pos: "(0::rat) < 2 powi a"
  by simp

lemma p2_add: "2 powi a * 2 powi b = (2::rat) powi (a + b)"
  by (simp add: power_int_add)

lemma spacing_53: "spacing x * 2 powi 53 = 2 powi (binade x + 1)"
proof -
  have "binade x - 52 + 53 = binade x + 1" by simp
  then show ?thesis unfolding spacing_def p2_add by (simp only:)
qed

lemma spacing_52: "spacing x * 2 powi 52 = 2 powi (binade x)"
proof -
  have "binade x - 52 + 52 = binade x" by simp
  then show ?thesis unfolding spacing_def p2_add by (simp only:)
qed

lemma expo_unique:
  assumes "0 < x" "2 powi e \<le> x" "x < 2 powi (e + 1)"
  shows "expo x = e"
proof -
  have "2 powi (expo x) < (2::rat) powi (e + 1)"
    using expo_bounds(1)[OF assms(1)] assms(3) by simp
  then have 1: "expo x < e + 1" by (rule p2_lessD)
  have "2 powi e < (2::rat) powi (expo x + 1)"
    using expo_bounds(2)[OF assms(1)] assms(2) by simp
  then have 2: "e < expo x + 1" by (rule p2_lessD)
  show ?thesis using 1 2 by simp
qed

lemma expo_mono:
  assumes "0 < x" "x \<le> y"
  shows "expo x \<le> expo y"
proof -
  have y: "0 < y" using assms by simp
  have "2 powi (expo x) < (2::rat) powi (expo y + 1)"
    using expo_bounds(1)[OF assms(1)] expo_bounds(2)[OF y] assms(2) by simp
  then have "expo x < expo y + 1" by (rule p2_lessD)
  then show ?thesis by simp
qed

lemma binade_ge: "- 1022 \<le> binade x"
  by (simp add: binade_def)

lemma binade_upper:
  assumes "0 < x"
  shows "x < 2 powi (binade x + 1)"
proof -
  have "x < 2 powi (expo x + 1)" by (rule expo_bounds(2)[OF assms])
  also have "\<dots> \<le> 2 powi (binade x + 1)" by (rule p2_mono) (simp add: binade_def)
  finally show ?thesis .
qed

lemma binade_lower:
  assumes "0 < x" "- 1022 < binade x"
  shows "2 powi (binade x) \<le> x"
proof -
  have "binade x = expo x" using assms(2) by (simp add: binade_def max_def split: if_splits)
  then show ?thesis using expo_bounds(1)[OF assms(1)] by simp
qed

lemma binade_mono:
  assumes "0 < x" "x \<le> y"
  shows "binade x \<le> binade y"
  using expo_mono[OF assms] by (simp add: binade_def)

lemma binade_eqI:
  assumes "0 < x" "- 1022 \<le> e" "x < 2 powi (e + 1)" "e = - 1022 \<or> 2 powi e \<le> x"
  shows "binade x = e"
proof (cases "2 powi e \<le> x")
  case True
  then have "expo x = e" using expo_unique[OF assms(1) _ assms(3)] by simp
  then show ?thesis using assms(2) by (simp add: binade_def)
next
  case False
  then have e: "e = - 1022" using assms(4) by simp
  have "2 powi (expo x) < (2::rat) powi (e + 1)"
    using expo_bounds(1)[OF assms(1)] assms(3) by simp
  then have "expo x < e + 1" by (rule p2_lessD)
  then show ?thesis unfolding e by (simp add: binade_def)
qed

lemma spacing_pos: "0 < spacing x"
  by (simp add: spacing_def)

lemma round_mag_0 [simp]: "round_mag 0 = 0"
  using rne_of_int[of 0] by (simp add: round_mag_def)

lemma round_mag_nonneg:
  assumes "0 \<le> x"
  shows "0 \<le> round_mag x"
proof -
  have "of_int 0 \<le> x / spacing x" using assms spacing_pos[of x] by simp
  then have "0 \<le> rne (x / spacing x)" by (rule rne_ge)
  then show ?thesis using spacing_pos[of x] by (simp add: round_mag_def)
qed

lemma round_mag_upper:
  assumes "0 < x"
  shows "round_mag x \<le> 2 powi (binade x + 1)"
proof -
  note s = spacing_53[of x]
  have "x / spacing x \<le> 2 powi 53"
    using binade_upper[OF assms] spacing_pos[of x] unfolding s[symmetric]
    by (simp add: field_simps)
  then have "x / spacing x \<le> of_int (2 ^ 53)" by simp
  then have "rne (x / spacing x) \<le> 2 ^ 53" by (rule rne_le)
  then have "(of_int (rne (x / spacing x)) :: rat) \<le> of_int (2 ^ 53)"
    by (simp only: of_int_le_iff)
  then have "of_int (rne (x / spacing x)) * spacing x \<le> 2 powi 53 * spacing x"
    using spacing_pos[of x] by simp
  then show ?thesis unfolding round_mag_def using s by (simp add: mult.commute)
qed

lemma round_mag_lower:
  assumes "0 < x" "2 powi (binade x) \<le> x"
  shows "2 powi (binade x) \<le> round_mag x"
proof -
  note s = spacing_52[of x]
  have "2 powi 52 \<le> x / spacing x"
    using assms(2) spacing_pos[of x] unfolding s[symmetric]
    by (simp add: field_simps)
  then have "of_int (2 ^ 52) \<le> x / spacing x" by simp
  then have "2 ^ 52 \<le> rne (x / spacing x)" by (rule rne_ge)
  then have "(of_int (2 ^ 52) :: rat) \<le> of_int (rne (x / spacing x))"
    by (simp only: of_int_le_iff)
  then have "2 powi 52 * spacing x \<le> of_int (rne (x / spacing x)) * spacing x"
    using spacing_pos[of x] by simp
  then show ?thesis unfolding round_mag_def using s by (simp add: mult.commute)
qed

lemma round_mag_mono:
  assumes "0 \<le> x" "x \<le> y"
  shows "round_mag x \<le> round_mag y"
proof (cases "x = 0")
  case True
  then show ?thesis using round_mag_nonneg[of y] assms by simp
next
  case False
  then have x: "0 < x" using assms(1) by simp
  then have y: "0 < y" using assms(2) by simp
  have b: "binade x \<le> binade y" by (rule binade_mono[OF x assms(2)])
  show ?thesis
  proof (cases "binade x = binade y")
    case True
    then have s: "spacing x = spacing y" by (simp add: spacing_def)
    have "x / spacing y \<le> y / spacing y"
      using assms(2) spacing_pos[of y] by (simp add: divide_right_mono)
    then have "rne (x / spacing y) \<le> rne (y / spacing y)" by (rule rne_mono)
    then have "(of_int (rne (x / spacing y)) :: rat) \<le> of_int (rne (y / spacing y))"
      by (simp only: of_int_le_iff)
    then show ?thesis
      unfolding round_mag_def s using spacing_pos[of y] by simp
  next
    case False
    then have lt: "binade x + 1 \<le> binade y" using b by simp
    then have "- 1022 < binade y" using binade_ge[of x] by linarith
    then have ly: "2 powi (binade y) \<le> y" by (rule binade_lower[OF y])
    have "round_mag x \<le> 2 powi (binade x + 1)" by (rule round_mag_upper[OF x])
    also have "\<dots> \<le> 2 powi (binade y)" by (rule p2_mono[OF lt])
    also have "\<dots> \<le> round_mag y" by (rule round_mag_lower[OF y ly])
    finally show ?thesis .
  qed
qed

lemma round_mag_exact:
  assumes "0 \<le> n" "n < 2 ^ 53" "- 1074 \<le> k"
  shows "round_mag (of_int n * 2 powi k) = of_int n * 2 powi k"
proof (cases "n = 0")
  case True
  then show ?thesis by simp
next
  case False
  define x :: rat where "x = of_int n * 2 powi k"
  have n: "0 < n" using False assms(1) by simp
  then have x: "0 < x" by (simp add: x_def)
  define e where "e = binade x"
  have k: "e - 52 \<le> k"
  proof (cases "e = - 1022")
    case True
    then show ?thesis using assms(3) by simp
  next
    case False
    then have "- 1022 < binade x" using binade_ge[of x] by (simp add: e_def)
    then have "2 powi e \<le> x" unfolding e_def by (rule binade_lower[OF x])
    also have "x < 2 powi 53 * 2 powi k"
    proof -
      have "(of_int n :: rat) < of_int (2 ^ 53)" using assms(2) by (simp only: of_int_less_iff)
      then show ?thesis unfolding x_def by simp
    qed
    also have "\<dots> = 2 powi (53 + k)" by (simp add: power_int_add del: power_int_numeral)
    finally have "e < 53 + k" by (rule p2_lessD)
    then show ?thesis by simp
  qed
  define d where "d = nat (k - (e - 52))"
  have "x / spacing x = of_int n * (2 powi k / 2 powi (e - 52))"
    by (simp add: x_def spacing_def e_def)
  also have "2 powi k / 2 powi (e - 52) = (2::rat) powi (k - (e - 52))"
    by (simp add: power_int_diff)
  also have "\<dots> = 2 ^ d" using k by (simp add: d_def power_int_def)
  finally have "x / spacing x = of_int (n * 2 ^ d)" by simp
  then have "rne (x / spacing x) = n * 2 ^ d" by (simp only: rne_of_int)
  then have "round_mag x = of_int (n * 2 ^ d) * spacing x" by (simp add: round_mag_def)
  also have "\<dots> = of_int n * (2 ^ d * 2 powi (e - 52))" by (simp add: spacing_def e_def)
  also have "(2::rat) ^ d = 2 powi (k - (e - 52))" using k by (simp add: d_def power_int_def)
  also have "2 powi (k - (e - 52)) * 2 powi (e - 52) = (2::rat) powi k"
    by (simp add: power_int_add[symmetric])
  finally show ?thesis by (simp add: x_def)
qed

lemma round_mag_idem:
  assumes "0 \<le> x"
  shows "round_mag (round_mag x) = round_mag x"
proof (cases "x = 0")
  case True
  then show ?thesis by simp
next
  case False
  then have x: "0 < x" using assms by simp
  define m where "m = rne (x / spacing x)"
  define k where "k = binade x - 52"
  have r: "round_mag x = of_int m * 2 powi k" by (simp add: round_mag_def m_def k_def spacing_def)
  have k: "- 1074 \<le> k" using binade_ge[of x] by (simp add: k_def)
  have m0: "0 \<le> m"
  proof -
    have "of_int 0 \<le> x / spacing x" using x spacing_pos[of x] by simp
    then show ?thesis unfolding m_def by (rule rne_ge)
  qed
  have "of_int m * 2 powi k \<le> (2::rat) powi (binade x + 1)"
    using round_mag_upper[OF x] r by simp
  also have "\<dots> = 2 powi 53 * 2 powi k"
    using spacing_53[of x] unfolding k_def spacing_def by (simp only: mult.commute)
  finally have "(of_int m :: rat) \<le> 2 powi 53" by simp
  then have "(of_int m :: rat) \<le> of_int (2 ^ 53)" by simp
  then have m1: "m \<le> 2 ^ 53" by (simp only: of_int_le_iff)
  show ?thesis
  proof (cases "m = 2 ^ 53")
    case True
    have "round_mag x = of_int (2 ^ 52) * 2 powi (k + 1)"
      unfolding r True by (simp add: power_int_add)
    moreover have "round_mag (of_int (2 ^ 52) * 2 powi (k + 1)) = of_int (2 ^ 52) * 2 powi (k + 1)"
      using k by (intro round_mag_exact) simp_all
    ultimately show ?thesis by simp
  next
    case False
    then have "m < 2 ^ 53" using m1 by simp
    then show ?thesis unfolding r using m0 k by (intro round_mag_exact)
  qed
qed

lemma floor_rat_numeral [simp]: "\<lfloor>numeral a / numeral b :: rat\<rfloor> = numeral a div numeral b"
  using floor_divide_of_int_eq[of "numeral a" "numeral b", where ?'a = rat] by simp

lemma floor_rat_one_numeral [simp]: "\<lfloor>1 / numeral b :: rat\<rfloor> = 1 div numeral b"
  using floor_divide_of_int_eq[of 1 "numeral b", where ?'a = rat] by simp

lemma round_mag_eq:
  assumes "0 < x" "- 1022 \<le> e" "x < 2 powi (e + 1)" "e = - 1022 \<or> 2 powi e \<le> x"
  shows "round_mag x = of_int (rne (x / 2 powi (e - 52))) * 2 powi (e - 52)"
  unfolding round_mag_def spacing_def binade_eqI[OF assms] by (rule refl)

subsection \<open>Operations on doubles\<close>

lemma f64_round_0 [simp]: "f64_round s 0 = Finite s 0"
  by (simp add: f64_round_def)

lemma f64_round_eval:
  assumes "0 < x" "- 1022 \<le> e" "x < 2 powi (e + 1)" "e = - 1022 \<or> 2 powi e \<le> x"
    and "of_int (rne (x / 2 powi (e - 52))) * 2 powi (e - 52) = c" "c < 2 ^ 1024"
  shows "f64_round s x = Finite s c"
  using assms(5,6) unfolding f64_round_def round_mag_eq[OF assms(1-4)] by (simp add: Let_def)

lemma f64_round_exact:
  assumes "0 \<le> n" "n < 2 ^ 53" "- 1074 \<le> k" "k \<le> 971"
  shows "f64_round s (of_int n * 2 powi k) = Finite s (of_int n * 2 powi k)"
proof -
  have "(of_int n :: rat) < of_int (2 ^ 53)" using assms(2) by (simp only: of_int_less_iff)
  then have "of_int n * 2 powi k < (2 powi 53 :: rat) * 2 powi k" by simp
  also have "\<dots> = 2 powi (53 + k)" by (rule p2_add)
  also have "\<dots> \<le> 2 powi 1024" using assms(4) by (intro p2_mono) simp
  finally have "of_int n * 2 powi k < (2::rat) ^ 1024" by simp
  then show ?thesis
    unfolding f64_round_def round_mag_exact[OF assms(1-3)] by (simp add: Let_def)
qed

lemma round_mag_numeral [simp]:
  "(numeral w :: int) < 2 ^ 53 \<Longrightarrow> round_mag (numeral w) = numeral w"
  using round_mag_exact[of "numeral w" 0] by simp

lemma round_mag_1 [simp]: "round_mag 1 = 1"
  using round_mag_exact[of 1 0] by simp

lemma f64_round_numeral [simp]:
  "(numeral w :: int) < 2 ^ 53 \<Longrightarrow> f64_round s (numeral w) = Finite s (numeral w)"
  using f64_round_exact[of "numeral w" 0 s] by simp

lemma f64_round_1 [simp]: "f64_round s 1 = Finite s 1"
  using f64_round_exact[of 1 0 s] by simp

lemma float_literal_1 [simp]: "float_literal 1 = Finite False 1"
  by (simp add: float_literal_def round_signed_def)

lemma float_literal_2 [simp]: "float_literal 2 = Finite False 2"
  by (simp add: float_literal_def round_signed_def)

lemma fadd_commute: "fadd a b = fadd b a"
  by (cases a; cases b) (auto simp: add.commute conj_commute)

lemma is_f64_f64_round: "0 \<le> m \<Longrightarrow> is_f64 (f64_round s m)"
  by (simp add: f64_round_def is_f64_def Let_def round_mag_nonneg round_mag_idem)

lemma fmul_one:
  assumes "is_f64 a"
  shows "fmul a (Finite False 1) = a"
  using assms by (cases a) (auto simp: is_f64_def f64_round_def Let_def)

lemma one_plus_zero: "fadd (float_literal 1) (Finite s 0) = Finite False 1"
  by (simp add: round_signed_def sval_def)

lemma redshifted_zero:
  assumes "list_all is_f64 x"
  shows "redshifted x (Finite s 0) = x"
  unfolding redshifted_def one_plus_zero
  using assms by (induction x) (simp_all add: fmul_one)

subsection \<open>The bin edges in closed form\<close>

lemma np_roll_m1: "np_roll a (- 1) = rotate1 a"
proof (cases "length a \<le> 1")
  case True
  then have "a = [] \<or> (\<exists>v. a = [v])" by (cases a) auto
  then show ?thesis by (auto simp: np_roll_def)
next
  case False
  then have "(1::int) mod int (length a) = 1" by simp
  then show ?thesis by (simp add: np_roll_def)
qed

lemma rotate1_nth: "i < length a \<Longrightarrow> rotate1 a ! i = (if Suc i < length a then a ! Suc i else a ! 0)"
  by (cases a) (auto simp: nth_append nth_Cons')

lemma py_bound_m1: "py_bound n (int n - 1) = n - 1"
  by (auto simp: py_bound_def)

lemma py_bound_len: "py_bound (Suc n) (int n) = n" "py_bound n (int n) = n"
  by (auto simp: py_bound_def)

lemma py_bound_1: "py_bound (Suc n) 1 = 1"
  by (auto simp: py_bound_def)

lemma py_index_0: "0 < n \<Longrightarrow> py_index n 0 = Some 0"
  by (simp add: py_index_def)

lemma py_index_nat: "i < n \<Longrightarrow> py_index n (int i) = Some i"
  by (simp add: py_index_def)

lemma length_redshifted [simp]: "length (redshifted x z) = length x"
  by (simp add: redshifted_def)

lemma nth_redshifted:
  "i < length x \<Longrightarrow> redshifted x z ! i = fmul (x ! i) (fadd (float_literal 1) z)"
  by (simp add: redshifted_def)

lemma length_ebplus_cf [simp]: "length (ebplus_cf xz) = length xz - 1"
  by (simp add: ebplus_cf_def)

lemma nth_ebplus_cf:
  assumes "Suc i < length xz"
  shows "ebplus_cf xz ! i = fdiv (fadd (xz ! Suc i) (xz ! i)) (float_literal 2)"
proof -
  have "i < length xz - 1" using assms by simp
  then show ?thesis unfolding ebplus_cf_def by (simp only: nth_map_upt) simp
qed

lemma length_ebounds_cf: "xz \<noteq> [] \<Longrightarrow> length (ebounds_cf xz) = Suc (length xz)"
  by (simp add: ebounds_cf_def)

lemma ebplus_closed: "ebplus xz (int (length xz)) = Inr (ebplus_cf xz)"
proof -
  have "map (\<lambda>e. fdiv e (float_literal 2))
          (np_slice_to (map2 fadd (rotate1 xz) xz) (int (length xz) - 1)) = ebplus_cf xz"
    by (rule nth_equalityI)
       (auto simp: np_slice_to_def py_bound_m1 ebplus_cf_def rotate1_nth)
  then show ?thesis
    by (simp add: ebplus_def np_binop_def np_roll_m1 bindE_def)
qed

lemma binsize_step:
  assumes "xz \<noteq> []"
  shows "np_slice_to (map2 fsub (rotate1 (ebounds_cf xz)) (ebounds_cf xz)) (int (length xz)) = binsize_cf xz"
  using assms
  by (intro nth_equalityI)
     (auto simp: np_slice_to_def py_bound_len length_ebounds_cf binsize_cf_def rotate1_nth)

lemma set_slice_inner:
  assumes "length a = Suc n" "1 \<le> n" "length v = n - 1"
  shows "np_set_slice a 1 (int n) v = Inr (a ! 0 # v @ [a ! n])"
proof -
  have t: "take 1 a = [a ! 0]"
    using assms(1) take_Suc_conv_app_nth[of 0 a] by simp
  have d: "drop n a = [a ! n]"
    using assms(1) Cons_nth_drop_Suc[of n a] by simp
  have m: "1 + (n - 1) = n" using assms(2) by simp
  show ?thesis
    unfolding np_set_slice_def Let_def assms(1) py_bound_len py_bound_1
    using assms(3) t d m by simp
qed

lemma bin_edges_closed:
  assumes "2 \<le> length x"
  shows "bin_edges junk x z = Inr (ebounds_cf (redshifted x z), binsize_cf (redshifted x z))"
proof -
  define xz where "xz = redshifted x z"
  define n where "n = length xz"
  have n: "2 \<le> n" "length x = n" "length xz = n" using assms by (simp_all add: n_def xz_def)
  have 1: "ebplus xz (int n) = Inr (ebplus_cf xz)"
    using ebplus_closed[of xz] by (simp add: n)
  have 2: "np_empty junk (int n + 1) = Inr (map junk [0 ..< Suc n])"
    by (simp add: np_empty_def nat_add_distrib)
  have 3: "np_set_slice (map junk [0 ..< Suc n]) 1 (int n) (ebplus_cf xz)
      = Inr (junk 0 # ebplus_cf xz @ [junk n])"
    using n set_slice_inner[of "map junk [0 ..< Suc n]" n "ebplus_cf xz"]
    by (simp del: upt_Suc add: nth_map_upt)
  have 4: "np_get xz 0 = Inr (xz ! 0)" using n by (simp add: np_get_def py_index_0)
  have 5: "np_get (ebplus_cf xz) 0 = Inr (ebplus_cf xz ! 0)" using n by (simp add: np_get_def py_index_0)
  have 6: "np_set (junk 0 # ebplus_cf xz @ [junk n]) 0 v = Inr (v # ebplus_cf xz @ [junk n])" for v
    by (simp add: np_set_def py_index_0)
  have 7: "np_get xz (int n - 1) = Inr (xz ! (n - 1))"
    using n py_index_nat[of "n - 1" n] by (simp add: np_get_def of_nat_diff)
  have 8: "np_get (ebplus_cf xz) (int n - 2) = Inr (ebplus_cf xz ! (n - 2))"
    using n py_index_nat[of "n - 2" "n - 1"] by (simp add: np_get_def of_nat_diff)
  have 9: "np_set (v # ebplus_cf xz @ [junk n]) (int n) w = Inr (v # ebplus_cf xz @ [w])" for v w
  proof -
    have "(v # ebplus_cf xz @ [junk n])[n := w] = (v # ebplus_cf xz) @ [w]"
      using n list_update_length[of "v # ebplus_cf xz" "junk n" "[]" w] by simp
    then show ?thesis
      using n py_index_nat[of n "Suc n"] by (simp add: np_set_def del: of_nat_Suc)
  qed
  have 10: "np_binop fsub (np_roll (ebounds_cf xz) (- 1)) (ebounds_cf xz)
     = Inr (map2 fsub (rotate1 (ebounds_cf xz)) (ebounds_cf xz))"
    by (simp add: np_binop_def np_roll_m1)
  have ne: "xz \<noteq> []" using n by auto
  have eb: "fsub (xz ! 0) (fsub (ebplus_cf xz ! 0) (xz ! 0)) # ebplus_cf xz @
     [fadd (xz ! (n - 1)) (fsub (xz ! (n - 1)) (ebplus_cf xz ! (n - 2)))] = ebounds_cf xz"
    by (simp add: ebounds_cf_def n)
  show ?thesis
    unfolding bin_edges_def Let_def xz_def[symmetric] n(2) 1 bindE_def sum.case
      2 3 4 5 6 7 8 9 eb 10 binsize_step[OF ne, unfolded n(3)]
    by (rule refl)
qed

lemma ebounds_cf_first:
  assumes "2 \<le> length xz"
  shows "ebounds_cf xz ! 0 =
     fsub (xz ! 0) (fsub (fdiv (fadd (xz ! 1) (xz ! 0)) (float_literal 2)) (xz ! 0))"
  using assms by (simp add: ebounds_cf_def nth_ebplus_cf)

lemma ebounds_cf_mid:
  assumes "1 \<le> i" "i < length xz"
  shows "ebounds_cf xz ! i = fdiv (fadd (xz ! i) (xz ! (i - 1))) (float_literal 2)"
proof -
  obtain k where k: "i = Suc k" using assms(1) by (cases i) auto
  then have lt: "Suc k < length xz" using assms(2) by simp
  then have "k < length (ebplus_cf xz)" by simp
  then have "ebounds_cf xz ! i = ebplus_cf xz ! k"
    unfolding k ebounds_cf_def by (simp add: nth_append del: length_ebplus_cf)
  then show ?thesis
    using lt by (simp add: k nth_ebplus_cf)
qed

lemma ebounds_cf_last:
  assumes "2 \<le> length xz"
  shows "ebounds_cf xz ! length xz =
     fadd (xz ! (length xz - 1))
       (fsub (xz ! (length xz - 1))
          (fdiv (fadd (xz ! (length xz - 1)) (xz ! (length xz - 2))) (float_literal 2)))"
proof -
  obtain k where k: "length xz = Suc (Suc k)"
    using assms by (metis Suc_le_D numeral_2_eq_2 Suc_le_mono le0 not0_implies_Suc not_less_eq_eq)
  have "ebounds_cf xz ! length xz = (ebplus_cf xz @
     [fadd (xz ! (length xz - 1)) (fsub (xz ! (length xz - 1)) (ebplus_cf xz ! (length xz - 2)))]) ! Suc k"
    by (simp add: k ebounds_cf_def)
  also have "\<dots> = fadd (xz ! (length xz - 1)) (fsub (xz ! (length xz - 1)) (ebplus_cf xz ! (length xz - 2)))"
    by (simp add: nth_append k)
  also have "ebplus_cf xz ! (length xz - 2) =
      fdiv (fadd (xz ! (length xz - 1)) (xz ! (length xz - 2))) (float_literal 2)"
    using nth_ebplus_cf[of k xz] by (simp add: k)
  finally show ?thesis .
qed

lemma nth_binsize_cf:
  "i < length xz \<Longrightarrow> binsize_cf xz ! i = fsub (ebounds_cf xz ! Suc i) (ebounds_cf xz ! i)"
  by (simp add: binsize_cf_def)

lemma length_binsize_cf [simp]: "length (binsize_cf xz) = length xz"
  by (simp add: binsize_cf_def)

subsection \<open>Evaluating APEC and VAPEC\<close>

lemma APEC_evaluate_closed:
  assumes "2 \<le> length x" "session self = Some sess"
  shows "APEC_evaluate api junk self x K kT abund z =
     (let r = return_spectrum api kT
                (set_abund api
                   [6, 7, 8, 9, 10, 11, 12, 13, 14, 16, 17, 18, 19, 20, 21, 22, 23, 24,
                    25, 26, 27, 28, 29, 30] abund
                   (set_response api (ebounds_cf (redshifted x z)) True sess))
      in (bindE (np_binop fdiv (fst r) (binsize_cf (redshifted x z))) (\<lambda>q.
            Inr (map (\<lambda>v. fmul K v) (map (\<lambda>v. fdiv v (float_literal (1 / 10 ^ 14))) q))),
          self\<lparr>session := Some (snd r)\<rparr>))"
  unfolding APEC_evaluate_def bin_edges_closed[OF assms(1)] assms(2)
  by (simp add: Let_def split: prod.split)

lemma VAPEC_evaluate_closed:
  assumes "2 \<le> length x" "session self = Some sess"
  shows "VAPEC_evaluate api junk self x K kT abund z =
     (let r = return_spectrum api kT
                (set_abund api
                   [3, 4, 5, 6, 7, 8, 9, 10, 11, 12, 13, 14, 16, 17, 18, 19, 20, 21, 22,
                    23, 24, 25, 26, 27, 28, 29, 30] abund
                   (set_response api (ebounds_cf (redshifted x z)) True sess))
      in (bindE (np_binop fdiv (fst r) (binsize_cf (redshifted x z))) (\<lambda>q.
            Inr (map (\<lambda>v. fmul K v) (map (\<lambda>v. fdiv v (float_literal (1 / 10 ^ 14))) q))),
          self\<lparr>session := Some (snd r)\<rparr>))"
  unfolding VAPEC_evaluate_def bin_edges_closed[OF assms(1)] assms(2)
  by (simp add: Let_def split: prod.split)

subsection \<open>The bin edges, position by position\<close>




subsection \<open>Grids of fewer than two points\<close>

lemma short_grid_cases: "length (x :: f64 list) < 2 \<Longrightarrow> x = [] \<or> (\<exists>v. x = [v])"
  by (cases x) (auto simp: length_Suc_conv)

lemma bin_edges_nil: "bin_edges junk [] z = Inl IndexError"
  by (simp add: bin_edges_def redshifted_def ebplus_closed[of "[]", simplified] ebplus_cf_def
      np_empty_def np_set_slice_def py_bound_def np_get_def py_index_def bindE_def)

lemma bin_edges_single: "bin_edges junk [v] z = Inl IndexError"
proof -
  obtain w where w: "redshifted [v] z = [w]" by (simp add: redshifted_def)
  have e: "ebplus [w] 1 = Inr []"
    using ebplus_closed[of "[w]"] by (simp add: ebplus_cf_def)
  have s: "np_set_slice [junk 0, junk (Suc 0)] 1 1 [] = Inr [junk 0, junk (Suc 0)]"
    by (simp add: np_set_slice_def py_bound_def)
  have m: "np_empty junk 2 = Inr [junk 0, junk (Suc 0)]"
    by (simp add: np_empty_def upt_conv_Cons)
  have g: "np_get [w] 0 = Inr w" "np_get [] 0 = Inl IndexError"
    by (simp_all add: np_get_def py_index_def)
  show ?thesis
    by (simp add: bin_edges_def w e m s g bindE_def Let_def)
qed

lemma bin_edges_short:
  assumes "length x < 2"
  shows "bin_edges junk x z = Inl IndexError"
  using short_grid_cases[OF assms] bin_edges_nil bin_edges_single by auto

lemma ebplus_short:
  assumes "length xz < 2"
  shows "ebplus xz (int (length xz)) = Inr []"
  using assms by (simp add: ebplus_closed ebplus_cf_def)

text \<open>
  C8. The bin-edge passage needs a grid of at least two points. For a grid of length 0
  or 1 the array \<open>ebplus\<close> is empty, so both \<open>ebplus[0]\<close> and \<open>ebplus[nval - 2]\<close> are
  outside it, the passage ends in IndexError, and so do \<open>APEC.evaluate\<close> and
  \<open>VAPEC.evaluate\<close> on an instance with a session. For a grid of length at least 2
  the array \<open>ebplus\<close> has \<open>nval - 1\<close> entries, every index read of the passage is in
  bounds, and the passage returns.
\<close>

theorem bin_edges_needs_two_points:
  "(length x < 2 \<longrightarrow>
      (\<exists>ebp. ebplus (redshifted x z) (int (length x)) = Inr ebp \<and> ebp = [] \<and>
         np_get ebp 0 = Inl IndexError \<and>
         np_get ebp (int (length x) - 2) = Inl IndexError) \<and>
      bin_edges junk x z = Inl IndexError \<and>
      (session self = Some sess \<longrightarrow>
         APEC_evaluate api junk self x K kT abund z = (Inl IndexError, self) \<and>
         VAPEC_evaluate api junk self x K kT abund z = (Inl IndexError, self))) \<and>
   (2 \<le> length x \<longrightarrow>
      (\<exists>ebp a b c d. ebplus (redshifted x z) (int (length x)) = Inr ebp \<and>
         length ebp = length x - 1 \<and>
         np_get (redshifted x z) 0 = Inr a \<and>
         np_get ebp 0 = Inr b \<and>
         np_get (redshifted x z) (int (length x) - 1) = Inr c \<and>
         np_get ebp (int (length x) - 2) = Inr d) \<and>
      (\<exists>ebounds binsize. bin_edges junk x z = Inr (ebounds, binsize)))"
proof (intro conjI impI)
  assume s: "length x < 2"
  then have e: "ebplus (redshifted x z) (int (length x)) = Inr []"
    using ebplus_short[of "redshifted x z"] by simp
  have "np_get [] 0 = Inl IndexError" "np_get [] (int (length x) - 2) = Inl IndexError"
    using s by (simp_all add: np_get_def py_index_def)
  then show "\<exists>ebp. ebplus (redshifted x z) (int (length x)) = Inr ebp \<and> ebp = [] \<and>
         np_get ebp 0 = Inl IndexError \<and> np_get ebp (int (length x) - 2) = Inl IndexError"
    using e by simp
  show b: "bin_edges junk x z = Inl IndexError" by (rule bin_edges_short[OF s])
  assume "session self = Some sess"
  then show "APEC_evaluate api junk self x K kT abund z = (Inl IndexError, self)"
    "VAPEC_evaluate api junk self x K kT abund z = (Inl IndexError, self)"
    by (simp_all add: APEC_evaluate_def VAPEC_evaluate_def b)
next
  assume l: "2 \<le> length x"
  let ?xz = "redshifted x z"
  have e: "ebplus ?xz (int (length x)) = Inr (ebplus_cf ?xz)"
    using ebplus_closed[of ?xz] by simp
  have p: "py_index (length x) 0 = Some 0" "py_index (length x - Suc 0) 0 = Some 0"
    using l by (auto simp: py_index_def)
  have 1: "np_get ?xz 0 = Inr (?xz ! 0)" "np_get (ebplus_cf ?xz) 0 = Inr (ebplus_cf ?xz ! 0)"
    by (simp_all add: np_get_def p)
  have 2: "np_get ?xz (int (length x) - 1) = Inr (?xz ! (length x - 1))"
    using l py_index_nat[of "length x - 1" "length x"] by (simp add: np_get_def of_nat_diff)
  have 3: "np_get (ebplus_cf ?xz) (int (length x) - 2) = Inr (ebplus_cf ?xz ! (length x - 2))"
    using l py_index_nat[of "length x - 2" "length x - 1"] by (simp add: np_get_def of_nat_diff)
  show "\<exists>ebp a b c d. ebplus ?xz (int (length x)) = Inr ebp \<and>
         length ebp = length x - 1 \<and>
         np_get ?xz 0 = Inr a \<and>
         np_get ebp 0 = Inr b \<and>
         np_get ?xz (int (length x) - 1) = Inr c \<and>
         np_get ebp (int (length x) - 2) = Inr d"
    using e 1 2 3 by simp
  show "\<exists>ebounds binsize. bin_edges junk x z = Inr (ebounds, binsize)"
    using bin_edges_closed[OF l] by blast
qed

theorem bin_edges_needs_two_points_witness:
  "bin_edges (\<lambda>_. NaN) [] (Finite False 1) = Inl IndexError \<and>
   bin_edges (\<lambda>_. NaN) [Finite False 5] (Finite False 1) = Inl IndexError \<and>
   APEC_evaluate (recording_session (\<lambda>_ _. [Finite False 1])) (\<lambda>_. NaN) \<lparr>session = Some [New ''AG89'']\<rparr>
     [Finite False 5] (Finite False 1) (Finite False 1) (Finite False 1) (Finite False 1) = (Inl IndexError, \<lparr>session = Some [New ''AG89'']\<rparr>) \<and>
   VAPEC_evaluate (recording_session (\<lambda>_ _. [Finite False 1])) (\<lambda>_. NaN) \<lparr>session = Some [New ''AG89'']\<rparr>
     [Finite False 5] (Finite False 1) (Finite False 1) (Finite False 1) (Finite False 1) = (Inl IndexError, \<lparr>session = Some [New ''AG89'']\<rparr>) \<and>
   (\<exists>ebounds binsize. bin_edges (\<lambda>_. NaN) [Finite False 5, Finite False 7] (Finite False 1) = Inr (ebounds, binsize))"
proof -
  let ?self = "\<lparr>session = Some [New ''AG89'']\<rparr>"
  let ?api = "recording_session (\<lambda>_ _. [Finite False 1])"
  have l0: "length ([] :: f64 list) < 2" and l1: "length [Finite False 5] < 2"
    and l2: "2 \<le> length [Finite False 5, Finite False 7]" and ses: "session ?self = Some [New ''AG89'']"
    by simp_all
  note t0 = bin_edges_needs_two_points[of "[]" "Finite False 1" "\<lambda>_. NaN" ?self "[New ''AG89'']" ?api "Finite False 1" "Finite False 1" "Finite False 1"]
  note t1 = bin_edges_needs_two_points[of "[Finite False 5]" "Finite False 1" "\<lambda>_. NaN" ?self "[New ''AG89'']" ?api "Finite False 1" "Finite False 1" "Finite False 1"]
  note t2 = bin_edges_needs_two_points[of "[Finite False 5, Finite False 7]" "Finite False 1" "\<lambda>_. NaN" ?self "[New ''AG89'']" ?api "Finite False 1" "Finite False 1" "Finite False 1"]
  have a: "bin_edges (\<lambda>_. NaN) [] (Finite False 1) = Inl IndexError"
    using t0 l0 by blast
  have b: "bin_edges (\<lambda>_. NaN) [Finite False 5] (Finite False 1) = Inl IndexError"
    using t1 l1 by blast
  have c: "APEC_evaluate ?api (\<lambda>_. NaN) ?self [Finite False 5] (Finite False 1) (Finite False 1) (Finite False 1) (Finite False 1) = (Inl IndexError, ?self)"
    "VAPEC_evaluate ?api (\<lambda>_. NaN) ?self [Finite False 5] (Finite False 1) (Finite False 1) (Finite False 1) (Finite False 1) = (Inl IndexError, ?self)"
    using t1 l1 ses by blast+
  have d: "\<exists>ebounds binsize. bin_edges (\<lambda>_. NaN) [Finite False 5, Finite False 7] (Finite False 1) = Inr (ebounds, binsize)"
    using t2 l2 by blast
  show ?thesis using a b c d by blast
qed

subsection \<open>The value APEC and VAPEC return\<close>

lemma evaluate_tail:
  assumes "length s = length b"
  shows "bindE (np_binop fdiv s b) (\<lambda>q.
            Inr (map (\<lambda>v. fmul K v) (map (\<lambda>v. fdiv v c) q)))
         = Inr (map (\<lambda>i. fmul K (fdiv (fdiv (s ! i) (b ! i)) c)) [0 ..< length s])"
proof -
  have m: "map (\<lambda>v. fmul K v) (map (\<lambda>v. fdiv v c) (map2 fdiv s b))
      = map (\<lambda>i. fmul K (fdiv (fdiv (s ! i) (b ! i)) c)) [0 ..< length s]"
    using assms by (intro nth_equalityI) simp_all
  have nb: "np_binop fdiv s b = Inr (map2 fdiv s b)"
    using assms by (simp add: np_binop_def)
  show ?thesis unfolding nb bindE_def sum.case m by (rule refl)
qed

lemma APEC_evaluate_value:
  assumes "2 \<le> length x" and "session self = Some sess"
    and "return_spectrum api kT
           (set_abund api
              [6, 7, 8, 9, 10, 11, 12, 13, 14, 16, 17, 18, 19, 20, 21, 22, 23, 24,
              25, 26, 27, 28, 29, 30] abund
              (set_response api (ebounds_cf (redshifted x z)) True sess)) = (s, sess')"
    and "length s = length x"
  shows "fst (APEC_evaluate api junk self x K kT abund z) =
      Inr (map (\<lambda>i. fmul K (fdiv (fdiv (s ! i) (binsize_cf (redshifted x z) ! i))
                                (float_literal (1 / 10 ^ 14)))) [0 ..< length s])"
proof -
  have l: "length s = length (binsize_cf (redshifted x z))" using assms(4) by simp
  show ?thesis
    unfolding APEC_evaluate_closed[OF assms(1,2)] assms(3) Let_def
    by (simp only: fst_conv evaluate_tail[OF l])
qed

lemma VAPEC_evaluate_value:
  assumes "2 \<le> length x" and "session self = Some sess"
    and "return_spectrum api kT
           (set_abund api
              [3, 4, 5, 6, 7, 8, 9, 10, 11, 12, 13, 14, 16, 17, 18, 19, 20, 21, 22,
              23, 24, 25, 26, 27, 28, 29, 30] abund
              (set_response api (ebounds_cf (redshifted x z)) True sess)) = (s, sess')"
    and "length s = length x"
  shows "fst (VAPEC_evaluate api junk self x K kT abund z) =
      Inr (map (\<lambda>i. fmul K (fdiv (fdiv (s ! i) (binsize_cf (redshifted x z) ! i))
                                (float_literal (1 / 10 ^ 14)))) [0 ..< length s])"
proof -
  have l: "length s = length (binsize_cf (redshifted x z))" using assms(4) by simp
  show ?thesis
    unfolding VAPEC_evaluate_closed[OF assms(1,2)] assms(3) Let_def
    by (simp only: fst_conv evaluate_tail[OF l])
qed

lemma ebounds_cf_pair:
  "ebounds_cf [a, b] =
     [fsub a (fsub (fdiv (fadd b a) (Finite False 2)) a), fdiv (fadd b a) (Finite False 2),
      fadd b (fsub b (fdiv (fadd b a) (Finite False 2)))]"
  by (simp add: ebounds_cf_def ebplus_cf_def del: fadd.simps fdiv.simps)

lemma binsize_cf_pair:
  "binsize_cf [a, b] =
     [fsub (ebounds_cf [a, b] ! 1) (ebounds_cf [a, b] ! 0),
      fsub (ebounds_cf [a, b] ! 2) (ebounds_cf [a, b] ! 1)]"
  by (simp add: binsize_cf_def upt_conv_Cons numeral_2_eq_2)

text \<open>
  C4. For a grid of \<open>n \<ge> 2\<close> points, on an instance with a session whose
  \<open>return_spectrum(kT)\<close>, called after \<open>set_response(ebounds, raw=True)\<close> and
  \<open>set_abund(elements, abund)\<close>, returns an array \<open>s\<close> of \<open>n\<close> doubles, \<open>APEC.evaluate\<close>
  and \<open>VAPEC.evaluate\<close> (each with its own list of elements) return the \<open>n\<close> doubles
  \<open>K * ((s[i] / binsize[i]) / 1e-14)\<close>, each operation rounded and the product with \<open>K\<close>
  taken last, where \<open>binsize[i] = ebounds[i+1] - ebounds[i]\<close>.
\<close>

theorem evaluate_value:
  assumes "2 \<le> length x" and "session self = Some sess"
    and "bin_edges junk x z = Inr (ebounds, binsize)"
    and "return_spectrum api kT
           (set_abund api
              [6, 7, 8, 9, 10, 11, 12, 13, 14, 16, 17, 18, 19, 20, 21, 22, 23, 24,
              25, 26, 27, 28, 29, 30] abund
              (set_response api ebounds True sess)) = (s, sess')"
    and "length s = length x"
    and "return_spectrum api kT
           (set_abund api
              [3, 4, 5, 6, 7, 8, 9, 10, 11, 12, 13, 14, 16, 17, 18, 19, 20, 21, 22,
              23, 24, 25, 26, 27, 28, 29, 30] abund
              (set_response api ebounds True sess)) = (sv, sessv)"
    and "length sv = length x"
  shows "\<exists>r rv.
     fst (APEC_evaluate api junk self x K kT abund z) = Inr r \<and> length r = length x \<and>
     fst (VAPEC_evaluate api junk self x K kT abund z) = Inr rv \<and> length rv = length x \<and>
     (\<forall>i<length x.
        r ! i = fmul K (fdiv (fdiv (s ! i) (binsize ! i)) (float_literal (1 / 10 ^ 14))) \<and>
        rv ! i = fmul K (fdiv (fdiv (sv ! i) (binsize ! i)) (float_literal (1 / 10 ^ 14))) \<and>
        binsize ! i = fsub (ebounds ! (i + 1)) (ebounds ! i))"
proof -
  let ?xz = "redshifted x z"
  have eb: "ebounds = ebounds_cf ?xz" and bs: "binsize = binsize_cf ?xz"
    using assms(3) bin_edges_closed[OF assms(1), of junk z] by simp_all
  note a = APEC_evaluate_value[OF assms(1,2) assms(4)[unfolded eb] assms(5), of junk K, folded bs]
  note v = VAPEC_evaluate_value[OF assms(1,2) assms(6)[unfolded eb] assms(7), of junk K, folded bs]
  have b: "\<forall>i<length x. binsize ! i = fsub (ebounds ! (i + 1)) (ebounds ! i)"
    unfolding bs eb using nth_binsize_cf[of _ ?xz] by simp
  show ?thesis
    using a v b assms(5,7) by simp
qed

theorem evaluate_value_witness:
  "\<exists>r rv.
     fst (APEC_evaluate (recording_session (\<lambda>_ _. [Finite False 8, Finite False 6])) (\<lambda>_. NaN)
            \<lparr>session = Some [New ''AG89'']\<rparr> [Finite False 1, Finite False 3]
            (Finite False 3) (Finite False 1) (Finite False 1) (Finite False 0)) = Inr r \<and>
     length r = 2 \<and>
     fst (VAPEC_evaluate (recording_session (\<lambda>_ _. [Finite False 8, Finite False 6])) (\<lambda>_. NaN)
            \<lparr>session = Some [New ''AG89'']\<rparr> [Finite False 1, Finite False 3]
            (Finite False 3) (Finite False 1) (Finite False 1) (Finite False 0)) = Inr rv \<and>
     length rv = 2 \<and>
     r ! 0 = fmul (Finite False 3) (fdiv (Finite False 4) (float_literal (1 / 10 ^ 14))) \<and>
     r ! 1 = fmul (Finite False 3) (fdiv (Finite False 3) (float_literal (1 / 10 ^ 14))) \<and>
     rv = r"
proof -
  let ?x = "[Finite False 1, Finite False 3]"
  let ?z = "Finite False 0"
  let ?api = "recording_session (\<lambda>_ _. [Finite False 8, Finite False 6])"
  let ?self = "\<lparr>session = Some [New ''AG89'']\<rparr>"
  let ?s = "[Finite False 8, Finite False 6]"
  let ?eb = "[Finite False 0, Finite False 2, Finite False 4]"
  let ?bs = "[Finite False 2, Finite False 2]"
  have c1r: "f64_round False 4 = Finite False 4"
    by (rule f64_round_eval[where e = "2"]) (simp_all add: rne_def Let_def)
  have c1: "fadd (Finite False 3) (Finite False 1) = Finite False 4"
    using c1r by (simp add: round_signed_def sval_def fsub_def)
  have c2r: "f64_round False 2 = Finite False 2"
    by (rule f64_round_eval[where e = "1"]) (simp_all add: rne_def Let_def)
  have c2: "fdiv (Finite False 4) (Finite False 2) = Finite False 2"
    using c2r by (simp add: round_signed_def sval_def fsub_def)
  have c3r: "f64_round False 1 = Finite False 1"
    by (rule f64_round_eval[where e = "0"]) (simp_all add: rne_def Let_def)
  have c3: "fsub (Finite False 2) (Finite False 1) = Finite False 1"
    using c3r by (simp add: round_signed_def sval_def fsub_def)
  have c4: "fsub (Finite False 1) (Finite False 1) = Finite False 0"
    by (simp add: round_signed_def sval_def fsub_def)
  have c5r: "f64_round False 1 = Finite False 1"
    by (rule f64_round_eval[where e = "0"]) (simp_all add: rne_def Let_def)
  have c5: "fsub (Finite False 3) (Finite False 2) = Finite False 1"
    using c5r by (simp add: round_signed_def sval_def fsub_def)
  have c6r: "f64_round False 2 = Finite False 2"
    by (rule f64_round_eval[where e = "1"]) (simp_all add: rne_def Let_def)
  have c6: "fsub (Finite False 2) (Finite False 0) = Finite False 2"
    using c6r by (simp add: round_signed_def sval_def fsub_def)
  have c7r: "f64_round False 2 = Finite False 2"
    by (rule f64_round_eval[where e = "1"]) (simp_all add: rne_def Let_def)
  have c7: "fsub (Finite False 4) (Finite False 2) = Finite False 2"
    using c7r by (simp add: round_signed_def sval_def fsub_def)
  have c8r: "f64_round False (3602879701896397 / 72057594037927936) = Finite False (3602879701896397 / 72057594037927936)"
    by (rule f64_round_eval[where e = "-5"]) (simp_all add: rne_def Let_def)
  have c8: "fdiv (Finite False (3602879701896397 / 36028797018963968)) (Finite False 2) = Finite False (3602879701896397 / 72057594037927936)"
    using c8r by (simp add: round_signed_def sval_def fsub_def)
  have c9r: "f64_round False (31691265005705736796636184576 / 6338253001141147) = Finite False 5000000000000"
    by (rule f64_round_eval[where e = "42"]) (simp_all add: rne_def Let_def)
  have c9: "fdiv (Finite False (3602879701896397 / 72057594037927936)) (Finite False (6338253001141147 / 633825300114114700748351602688)) = Finite False 5000000000000"
    using c9r by (simp add: round_signed_def sval_def fsub_def)
  have c10r: "f64_round False 15000000000000 = Finite False 15000000000000"
    by (rule f64_round_eval[where e = "43"]) (simp_all add: rne_def Let_def)
  have c10: "fmul (Finite False 3) (Finite False 5000000000000) = Finite False 15000000000000"
    using c10r by (simp add: round_signed_def sval_def fsub_def)
  have c11r: "f64_round False (10808639105689191 / 36028797018963968) = Finite False (1351079888211149 / 4503599627370496)"
    by (rule f64_round_eval[where e = "-2"]) (simp_all add: rne_def Let_def)
  have c11: "fmul (Finite False 3) (Finite False (3602879701896397 / 36028797018963968)) = Finite False (1351079888211149 / 4503599627370496)"
    using c11r by (simp add: round_signed_def sval_def fsub_def)
  have c12r: "f64_round False (1351079888211149 / 9007199254740992) = Finite False (1351079888211149 / 9007199254740992)"
    by (rule f64_round_eval[where e = "-3"]) (simp_all add: rne_def Let_def)
  have c12: "fdiv (Finite False (1351079888211149 / 4503599627370496)) (Finite False 2) = Finite False (1351079888211149 / 9007199254740992)"
    using c12r by (simp add: round_signed_def sval_def fsub_def)
  have c13r: "f64_round False (95073795017117219186001575936 / 6338253001141147) = Finite False (7680000000000001 / 512)"
    by (rule f64_round_eval[where e = "43"]) (simp_all add: rne_def Let_def)
  have c13: "fdiv (Finite False (1351079888211149 / 9007199254740992)) (Finite False (6338253001141147 / 633825300114114700748351602688)) = Finite False (7680000000000001 / 512)"
    using c13r by (simp add: round_signed_def sval_def fsub_def)
  have litr: "f64_round False (1 / 100000000000000) = Finite False (6338253001141147 / 633825300114114700748351602688)"
    by (rule f64_round_eval[where e = "-47"]) (simp_all add: rne_def Let_def)
  have xz: "redshifted ?x ?z = ?x"
    by (rule redshifted_zero) (simp add: is_f64_def)
  have len: "2 \<le> length ?x" by simp
  have eb: "ebounds_cf ?x = ?eb"
    unfolding ebounds_cf_pair by (simp add: c1 c2 c3 c4 c5 c6 c7 c8 c9 c10 c11 c12 c13 del: fadd.simps fdiv.simps fmul.simps)
  have bs: "binsize_cf ?x = ?bs"
    unfolding binsize_cf_pair eb by (simp add: c1 c2 c3 c4 c5 c6 c7 c8 c9 c10 c11 c12 c13 del: fadd.simps fdiv.simps fmul.simps)
  have be: "bin_edges (\<lambda>_. NaN) ?x ?z = Inr (?eb, ?bs)"
    using bin_edges_closed[OF len, of "\<lambda>_. NaN" ?z] unfolding xz eb bs .
  have ses: "session ?self = Some [New ''AG89'']" by simp
  have ra: "return_spectrum ?api (Finite False 1)
           (set_abund ?api
              [6, 7, 8, 9, 10, 11, 12, 13, 14, 16, 17, 18, 19, 20, 21, 22, 23, 24,
              25, 26, 27, 28, 29, 30] (Finite False 1)
              (set_response ?api ?eb True [New ''AG89''])) =
         (?s, [New ''AG89'', SetResponse ?eb True,
               SetAbund [6, 7, 8, 9, 10, 11, 12, 13, 14, 16, 17, 18, 19, 20, 21, 22, 23, 24,
              25, 26, 27, 28, 29, 30] (Finite False 1),
               ReturnSpectrum (Finite False 1)])"
    by (simp add: recording_session_def)
  have rv: "return_spectrum ?api (Finite False 1)
           (set_abund ?api
              [3, 4, 5, 6, 7, 8, 9, 10, 11, 12, 13, 14, 16, 17, 18, 19, 20, 21, 22,
              23, 24, 25, 26, 27, 28, 29, 30] (Finite False 1)
              (set_response ?api ?eb True [New ''AG89''])) =
         (?s, [New ''AG89'', SetResponse ?eb True,
               SetAbund [3, 4, 5, 6, 7, 8, 9, 10, 11, 12, 13, 14, 16, 17, 18, 19, 20, 21, 22,
              23, 24, 25, 26, 27, 28, 29, 30] (Finite False 1),
               ReturnSpectrum (Finite False 1)])"
    by (simp add: recording_session_def)
  have ls: "length ?s = length ?x" by simp
  obtain r rv where
    e: "fst (APEC_evaluate ?api (\<lambda>_. NaN) ?self ?x (Finite False 3) (Finite False 1) (Finite False 1) ?z) = Inr r"
      "length r = length ?x"
      "fst (VAPEC_evaluate ?api (\<lambda>_. NaN) ?self ?x (Finite False 3) (Finite False 1) (Finite False 1) ?z) = Inr rv"
      "length rv = length ?x"
      "\<forall>i<length ?x.
        r ! i = fmul (Finite False 3) (fdiv (fdiv (?s ! i) (?bs ! i)) (float_literal (1 / 10 ^ 14))) \<and>
        rv ! i = fmul (Finite False 3) (fdiv (fdiv (?s ! i) (?bs ! i)) (float_literal (1 / 10 ^ 14))) \<and>
        ?bs ! i = fsub (?eb ! (i + 1)) (?eb ! i)"
    using evaluate_value[OF len ses be ra ls rv ls, of "Finite False 3"] by blast
  have d: "fdiv (Finite False 8) (Finite False 2) = Finite False 4"
    "fdiv (Finite False 6) (Finite False 2) = Finite False 3"
    by simp_all
  have 0: "r ! 0 = fmul (Finite False 3) (fdiv (Finite False 4) (float_literal (1 / 10 ^ 14)))"
    "rv ! 0 = r ! 0"
    using e(5)[rule_format, of 0] by (simp_all add: d del: fdiv.simps fmul.simps)
  have 1: "r ! 1 = fmul (Finite False 3) (fdiv (Finite False 3) (float_literal (1 / 10 ^ 14)))"
    "rv ! 1 = r ! 1"
    using e(5)[rule_format, of 1] by (simp_all add: d del: fdiv.simps fmul.simps)
  have l: "length r = 2" "length rv = 2" using e(2,4) by simp_all
  have "rv = r"
  proof (rule nth_equalityI)
    show "length rv = length r" using l by simp
    fix i assume "i < length rv"
    then have "i = 0 \<or> i = 1" using l by auto
    then show "rv ! i = r ! i" using 0(2) 1(2) by auto
  qed
  then show ?thesis using e(1,3) l 0(1) 1(1) by blast
qed

text \<open>
  \<open>K = 3\<close>, a spectrum of \<open>0.1\<close> on the grid \<open>[1, 3]\<close> at redshift 0, where both bins are
  \<open>2\<close> wide: the code returns \<open>3 * ((0.1 / 2) / 1e-14) = 15000000000000.0\<close>, while
  \<open>3 * 0.1 / 2 / 1e-14\<close>, read from left to right, is \<open>15000000000000.002\<close>.
\<close>

theorem evaluate_value_counterexample:
  "fst (APEC_evaluate (recording_session (\<lambda>_ _. [Finite False (3602879701896397 / 36028797018963968), Finite False (3602879701896397 / 36028797018963968)]))
          (\<lambda>_. NaN) \<lparr>session = Some [New ''AG89'']\<rparr> [Finite False 1, Finite False 3]
          (Finite False 3) (Finite False 1) (Finite False 1) (Finite False 0))
     = Inr [Finite False 15000000000000, Finite False 15000000000000] \<and>
   bin_edges (\<lambda>_. NaN) [Finite False 1, Finite False 3] (Finite False 0)
     = Inr ([Finite False 0, Finite False 2, Finite False 4], [Finite False 2, Finite False 2]) \<and>
   fdiv (fdiv (fmul (Finite False 3) (Finite False (3602879701896397 / 36028797018963968))) (Finite False 2))
        (float_literal (1 / 10 ^ 14)) = Finite False (7680000000000001 / 512)"
proof -
  let ?x = "[Finite False 1, Finite False 3]"
  let ?z = "Finite False 0"
  let ?s = "[Finite False (3602879701896397 / 36028797018963968), Finite False (3602879701896397 / 36028797018963968)]"
  let ?api = "recording_session (\<lambda>_ _. ?s)"
  let ?self = "\<lparr>session = Some [New ''AG89'']\<rparr>"
  let ?eb = "[Finite False 0, Finite False 2, Finite False 4]"
  let ?bs = "[Finite False 2, Finite False 2]"
  have c1r: "f64_round False 4 = Finite False 4"
    by (rule f64_round_eval[where e = "2"]) (simp_all add: rne_def Let_def)
  have c1: "fadd (Finite False 3) (Finite False 1) = Finite False 4"
    using c1r by (simp add: round_signed_def sval_def fsub_def)
  have c2r: "f64_round False 2 = Finite False 2"
    by (rule f64_round_eval[where e = "1"]) (simp_all add: rne_def Let_def)
  have c2: "fdiv (Finite False 4) (Finite False 2) = Finite False 2"
    using c2r by (simp add: round_signed_def sval_def fsub_def)
  have c3r: "f64_round False 1 = Finite False 1"
    by (rule f64_round_eval[where e = "0"]) (simp_all add: rne_def Let_def)
  have c3: "fsub (Finite False 2) (Finite False 1) = Finite False 1"
    using c3r by (simp add: round_signed_def sval_def fsub_def)
  have c4: "fsub (Finite False 1) (Finite False 1) = Finite False 0"
    by (simp add: round_signed_def sval_def fsub_def)
  have c5r: "f64_round False 1 = Finite False 1"
    by (rule f64_round_eval[where e = "0"]) (simp_all add: rne_def Let_def)
  have c5: "fsub (Finite False 3) (Finite False 2) = Finite False 1"
    using c5r by (simp add: round_signed_def sval_def fsub_def)
  have c6r: "f64_round False 2 = Finite False 2"
    by (rule f64_round_eval[where e = "1"]) (simp_all add: rne_def Let_def)
  have c6: "fsub (Finite False 2) (Finite False 0) = Finite False 2"
    using c6r by (simp add: round_signed_def sval_def fsub_def)
  have c7r: "f64_round False 2 = Finite False 2"
    by (rule f64_round_eval[where e = "1"]) (simp_all add: rne_def Let_def)
  have c7: "fsub (Finite False 4) (Finite False 2) = Finite False 2"
    using c7r by (simp add: round_signed_def sval_def fsub_def)
  have c8r: "f64_round False (3602879701896397 / 72057594037927936) = Finite False (3602879701896397 / 72057594037927936)"
    by (rule f64_round_eval[where e = "-5"]) (simp_all add: rne_def Let_def)
  have c8: "fdiv (Finite False (3602879701896397 / 36028797018963968)) (Finite False 2) = Finite False (3602879701896397 / 72057594037927936)"
    using c8r by (simp add: round_signed_def sval_def fsub_def)
  have c9r: "f64_round False (31691265005705736796636184576 / 6338253001141147) = Finite False 5000000000000"
    by (rule f64_round_eval[where e = "42"]) (simp_all add: rne_def Let_def)
  have c9: "fdiv (Finite False (3602879701896397 / 72057594037927936)) (Finite False (6338253001141147 / 633825300114114700748351602688)) = Finite False 5000000000000"
    using c9r by (simp add: round_signed_def sval_def fsub_def)
  have c10r: "f64_round False 15000000000000 = Finite False 15000000000000"
    by (rule f64_round_eval[where e = "43"]) (simp_all add: rne_def Let_def)
  have c10: "fmul (Finite False 3) (Finite False 5000000000000) = Finite False 15000000000000"
    using c10r by (simp add: round_signed_def sval_def fsub_def)
  have c11r: "f64_round False (10808639105689191 / 36028797018963968) = Finite False (1351079888211149 / 4503599627370496)"
    by (rule f64_round_eval[where e = "-2"]) (simp_all add: rne_def Let_def)
  have c11: "fmul (Finite False 3) (Finite False (3602879701896397 / 36028797018963968)) = Finite False (1351079888211149 / 4503599627370496)"
    using c11r by (simp add: round_signed_def sval_def fsub_def)
  have c12r: "f64_round False (1351079888211149 / 9007199254740992) = Finite False (1351079888211149 / 9007199254740992)"
    by (rule f64_round_eval[where e = "-3"]) (simp_all add: rne_def Let_def)
  have c12: "fdiv (Finite False (1351079888211149 / 4503599627370496)) (Finite False 2) = Finite False (1351079888211149 / 9007199254740992)"
    using c12r by (simp add: round_signed_def sval_def fsub_def)
  have c13r: "f64_round False (95073795017117219186001575936 / 6338253001141147) = Finite False (7680000000000001 / 512)"
    by (rule f64_round_eval[where e = "43"]) (simp_all add: rne_def Let_def)
  have c13: "fdiv (Finite False (1351079888211149 / 9007199254740992)) (Finite False (6338253001141147 / 633825300114114700748351602688)) = Finite False (7680000000000001 / 512)"
    using c13r by (simp add: round_signed_def sval_def fsub_def)
  have litr: "f64_round False (1 / 100000000000000) = Finite False (6338253001141147 / 633825300114114700748351602688)"
    by (rule f64_round_eval[where e = "-47"]) (simp_all add: rne_def Let_def)
  have lit: "float_literal (1 / 10 ^ 14) = Finite False (6338253001141147 / 633825300114114700748351602688)"
    using litr by (simp add: float_literal_def round_signed_def)
  have xz: "redshifted ?x ?z = ?x"
    by (rule redshifted_zero) (simp add: is_f64_def)
  have len: "2 \<le> length ?x" by simp
  have eb: "ebounds_cf ?x = ?eb"
    unfolding ebounds_cf_pair by (simp add: c1 c2 c3 c4 c5 c6 c7 c8 c9 c10 c11 c12 c13 del: fadd.simps fdiv.simps fmul.simps)
  have bs: "binsize_cf ?x = ?bs"
    unfolding binsize_cf_pair eb by (simp add: c1 c2 c3 c4 c5 c6 c7 c8 c9 c10 c11 c12 c13 del: fadd.simps fdiv.simps fmul.simps)
  have be: "bin_edges (\<lambda>_. NaN) ?x ?z = Inr (?eb, ?bs)"
    using bin_edges_closed[OF len, of "\<lambda>_. NaN" ?z] unfolding xz eb bs .
  have ses: "session ?self = Some [New ''AG89'']" by simp
  have ra: "return_spectrum ?api (Finite False 1)
           (set_abund ?api
              [6, 7, 8, 9, 10, 11, 12, 13, 14, 16, 17, 18, 19, 20, 21, 22, 23, 24,
              25, 26, 27, 28, 29, 30] (Finite False 1)
              (set_response ?api (ebounds_cf (redshifted ?x ?z)) True [New ''AG89''])) =
         (?s, [New ''AG89'', SetResponse ?eb True,
               SetAbund [6, 7, 8, 9, 10, 11, 12, 13, 14, 16, 17, 18, 19, 20, 21, 22, 23, 24,
              25, 26, 27, 28, 29, 30] (Finite False 1),
               ReturnSpectrum (Finite False 1)])"
    unfolding xz eb by (simp add: recording_session_def)
  have ls: "length ?s = length ?x" by simp
  have "fst (APEC_evaluate ?api (\<lambda>_. NaN) ?self ?x (Finite False 3) (Finite False 1) (Finite False 1) ?z)
      = Inr (map (\<lambda>i. fmul (Finite False 3) (fdiv (fdiv (?s ! i) (?bs ! i)) (float_literal (1 / 10 ^ 14))))
               [0 ..< length ?s])"
    using APEC_evaluate_value[OF len ses ra ls, of "\<lambda>_. NaN" "Finite False 3"] unfolding xz bs .
  also have "\<dots> = Inr [Finite False 15000000000000, Finite False 15000000000000]"
    unfolding lit by (simp add: upt_conv_Cons c1 c2 c3 c4 c5 c6 c7 c8 c9 c10 c11 c12 c13 del: fadd.simps fdiv.simps fmul.simps)
  finally have a: "fst (APEC_evaluate ?api (\<lambda>_. NaN) ?self ?x (Finite False 3) (Finite False 1)
      (Finite False 1) ?z) = Inr [Finite False 15000000000000, Finite False 15000000000000]" .
  have alt: "fdiv (fdiv (fmul (Finite False 3) (Finite False (3602879701896397 / 36028797018963968))) (Finite False 2))
        (float_literal (1 / 10 ^ 14)) = Finite False (7680000000000001 / 512)"
    unfolding lit by (simp add: c1 c2 c3 c4 c5 c6 c7 c8 c9 c10 c11 c12 c13 del: fadd.simps fdiv.simps fmul.simps)
  show ?thesis using a be alt by blast
qed

subsection \<open>No state is kept between evaluations\<close>

lemma bin_edges_junk: "bin_edges junk x z = bin_edges junk' x z"
proof (cases "2 \<le> length x")
  case True
  then show ?thesis by (simp add: bin_edges_closed)
next
  case False
  then have "length x < 2" by simp
  then show ?thesis by (simp add: bin_edges_short)
qed

lemma APEC_evaluate_more: "APEC.more (snd (APEC_evaluate api junk self x K kT abund z)) = APEC.more self"
  by (simp add: APEC_evaluate_def Let_def split: option.split sum.split prod.split)

lemma VAPEC_evaluate_more: "APEC.more (snd (VAPEC_evaluate api junk self x K kT abund z)) = APEC.more self"
  by (simp add: VAPEC_evaluate_def Let_def split: option.split sum.split prod.split)

lemma APEC_evaluate_session:
  assumes "2 \<le> length x" "session self = Some sess"
  shows "session (snd (APEC_evaluate api junk self x K kT abund z)) =
     Some (snd (return_spectrum api kT
       (set_abund api
          [6, 7, 8, 9, 10, 11, 12, 13, 14, 16, 17, 18, 19, 20, 21, 22, 23, 24,
               25, 26, 27, 28, 29, 30] abund
          (set_response api (ebounds_cf (redshifted x z)) True sess))))"
  by (simp add: APEC_evaluate_closed[OF assms] Let_def)

lemma VAPEC_evaluate_session:
  assumes "2 \<le> length x" "session self = Some sess"
  shows "session (snd (VAPEC_evaluate api junk self x K kT abund z)) =
     Some (snd (return_spectrum api kT
       (set_abund api
          [3, 4, 5, 6, 7, 8, 9, 10, 11, 12, 13, 14, 16, 17, 18, 19, 20, 21, 22,
               23, 24, 25, 26, 27, 28, 29, 30] abund
          (set_response api (ebounds_cf (redshifted x z)) True sess))))"
  by (simp add: VAPEC_evaluate_closed[OF assms] Let_def)

lemma bin_edges_1_3:
  "bin_edges junk [Finite False 1, Finite False 3] (Finite False 0)
     = Inr ([Finite False 0, Finite False 2, Finite False 4], [Finite False 2, Finite False 2])"
proof -
  let ?x = "[Finite False 1, Finite False 3]"
  let ?z = "Finite False 0"
  let ?eb = "[Finite False 0, Finite False 2, Finite False 4]"
  let ?bs = "[Finite False 2, Finite False 2]"
  have c1r: "f64_round False 4 = Finite False 4"
    by (rule f64_round_eval[where e = "2"]) (simp_all add: rne_def Let_def)
  have c1: "fadd (Finite False 3) (Finite False 1) = Finite False 4"
    using c1r by (simp add: round_signed_def sval_def fsub_def)
  have c2r: "f64_round False 2 = Finite False 2"
    by (rule f64_round_eval[where e = "1"]) (simp_all add: rne_def Let_def)
  have c2: "fdiv (Finite False 4) (Finite False 2) = Finite False 2"
    using c2r by (simp add: round_signed_def sval_def fsub_def)
  have c3r: "f64_round False 1 = Finite False 1"
    by (rule f64_round_eval[where e = "0"]) (simp_all add: rne_def Let_def)
  have c3: "fsub (Finite False 2) (Finite False 1) = Finite False 1"
    using c3r by (simp add: round_signed_def sval_def fsub_def)
  have c4: "fsub (Finite False 1) (Finite False 1) = Finite False 0"
    by (simp add: round_signed_def sval_def fsub_def)
  have c5r: "f64_round False 1 = Finite False 1"
    by (rule f64_round_eval[where e = "0"]) (simp_all add: rne_def Let_def)
  have c5: "fsub (Finite False 3) (Finite False 2) = Finite False 1"
    using c5r by (simp add: round_signed_def sval_def fsub_def)
  have c6r: "f64_round False 2 = Finite False 2"
    by (rule f64_round_eval[where e = "1"]) (simp_all add: rne_def Let_def)
  have c6: "fsub (Finite False 2) (Finite False 0) = Finite False 2"
    using c6r by (simp add: round_signed_def sval_def fsub_def)
  have c7r: "f64_round False 2 = Finite False 2"
    by (rule f64_round_eval[where e = "1"]) (simp_all add: rne_def Let_def)
  have c7: "fsub (Finite False 4) (Finite False 2) = Finite False 2"
    using c7r by (simp add: round_signed_def sval_def fsub_def)
  have xz: "redshifted ?x ?z = ?x"
    by (rule redshifted_zero) (simp add: is_f64_def)
  have len: "2 \<le> length ?x" by simp
  have eb: "ebounds_cf ?x = ?eb"
    unfolding ebounds_cf_pair by (simp add: c1 c2 c3 c4 c5 c6 c7 del: fadd.simps fdiv.simps fmul.simps)
  have bs: "binsize_cf ?x = ?bs"
    unfolding binsize_cf_pair eb by (simp add: c1 c2 c3 c4 c5 c6 c7 del: fadd.simps fdiv.simps fmul.simps)
  show ?thesis
    using bin_edges_closed[OF len, of junk ?z] unfolding xz eb bs .
qed

text \<open>
  C6. \<open>APEC.evaluate\<close> and \<open>VAPEC.evaluate\<close> keep no bin edges. The edges and bin sizes
  are a function of the arguments \<open>x\<close> and \<open>redshift\<close> alone: what the uninitialised
  memory behind \<open>np.empty\<close> held makes no difference. An evaluation leaves every
  attribute of the instance as it was: the instance's extension is unchanged, an instance
  without a session is returned as it is, and on an instance with a session only the
  state of the session object moves on. So a second evaluation with the same \<open>x\<close> and
  \<open>redshift\<close>, on the instance the first one left, hands \<open>set_response\<close> the same edges as
  the first.
\<close>

theorem bin_edges_not_persisted:
  "bin_edges junk x z = bin_edges junk' x z \<and>
   APEC.more (snd (APEC_evaluate api junk self x K kT abund z)) = APEC.more self \<and>
   APEC.more (snd (VAPEC_evaluate api junk self x K kT abund z)) = APEC.more self \<and>
   (session self = None \<longrightarrow>
      snd (APEC_evaluate api junk self x K kT abund z) = self \<and>
      snd (VAPEC_evaluate api junk self x K kT abund z) = self) \<and>
   (\<forall>sess. session self = Some sess \<and> 2 \<le> length x \<longrightarrow>
      (\<exists>eb bs sess1 sessv1.
         bin_edges junk x z = Inr (eb, bs) \<and>
         sess1 = snd (return_spectrum api kT
                   (set_abund api
                      [6, 7, 8, 9, 10, 11, 12, 13, 14, 16, 17, 18, 19, 20, 21, 22, 23, 24,
               25, 26, 27, 28, 29, 30] abund
                      (set_response api eb True sess))) \<and>
         session (snd (APEC_evaluate api junk self x K kT abund z)) = Some sess1 \<and>
         session (snd (APEC_evaluate api junk'
                    (snd (APEC_evaluate api junk self x K kT abund z)) x K' kT' abund' z)) =
           Some (snd (return_spectrum api kT'
                   (set_abund api
                      [6, 7, 8, 9, 10, 11, 12, 13, 14, 16, 17, 18, 19, 20, 21, 22, 23, 24,
               25, 26, 27, 28, 29, 30] abund'
                      (set_response api eb True sess1)))) \<and>
         sessv1 = snd (return_spectrum api kT
                   (set_abund api
                      [3, 4, 5, 6, 7, 8, 9, 10, 11, 12, 13, 14, 16, 17, 18, 19, 20, 21, 22,
               23, 24, 25, 26, 27, 28, 29, 30] abund
                      (set_response api eb True sess))) \<and>
         session (snd (VAPEC_evaluate api junk self x K kT abund z)) = Some sessv1 \<and>
         session (snd (VAPEC_evaluate api junk'
                    (snd (VAPEC_evaluate api junk self x K kT abund z)) x K' kT' abund' z)) =
           Some (snd (return_spectrum api kT'
                   (set_abund api
                      [3, 4, 5, 6, 7, 8, 9, 10, 11, 12, 13, 14, 16, 17, 18, 19, 20, 21, 22,
               23, 24, 25, 26, 27, 28, 29, 30] abund'
                      (set_response api eb True sessv1))))))"
proof (intro conjI allI impI)
  show "bin_edges junk x z = bin_edges junk' x z" by (rule bin_edges_junk)
  show "APEC.more (snd (APEC_evaluate api junk self x K kT abund z)) = APEC.more self"
    by (rule APEC_evaluate_more)
  show "APEC.more (snd (VAPEC_evaluate api junk self x K kT abund z)) = APEC.more self"
    by (rule VAPEC_evaluate_more)
next
  assume "session self = None"
  then show "snd (APEC_evaluate api junk self x K kT abund z) = self"
    "snd (VAPEC_evaluate api junk self x K kT abund z) = self"
    by (simp_all add: APEC_evaluate_def VAPEC_evaluate_def)
next
  fix sess assume a: "session self = Some sess \<and> 2 \<le> length x"
  then have s: "session self = Some sess" and l: "2 \<le> length x" by simp_all
  let ?eb = "ebounds_cf (redshifted x z)"
  let ?self1 = "snd (APEC_evaluate api junk self x K kT abund z)"
  let ?selfv1 = "snd (VAPEC_evaluate api junk self x K kT abund z)"
  note s1 = APEC_evaluate_session[OF l s, of api junk K kT abund z]
  note v1 = VAPEC_evaluate_session[OF l s, of api junk K kT abund z]
  note s2 = APEC_evaluate_session[OF l s1, of api junk' K' kT' abund' z]
  note v2 = VAPEC_evaluate_session[OF l v1, of api junk' K' kT' abund' z]
  show "\<exists>eb bs sess1 sessv1.
         bin_edges junk x z = Inr (eb, bs) \<and>
         sess1 = snd (return_spectrum api kT
                   (set_abund api
                      [6, 7, 8, 9, 10, 11, 12, 13, 14, 16, 17, 18, 19, 20, 21, 22, 23, 24,
               25, 26, 27, 28, 29, 30] abund
                      (set_response api eb True sess))) \<and>
         session ?self1 = Some sess1 \<and>
         session (snd (APEC_evaluate api junk' ?self1 x K' kT' abund' z)) =
           Some (snd (return_spectrum api kT'
                   (set_abund api
                      [6, 7, 8, 9, 10, 11, 12, 13, 14, 16, 17, 18, 19, 20, 21, 22, 23, 24,
               25, 26, 27, 28, 29, 30] abund'
                      (set_response api eb True sess1)))) \<and>
         sessv1 = snd (return_spectrum api kT
                   (set_abund api
                      [3, 4, 5, 6, 7, 8, 9, 10, 11, 12, 13, 14, 16, 17, 18, 19, 20, 21, 22,
               23, 24, 25, 26, 27, 28, 29, 30] abund
                      (set_response api eb True sess))) \<and>
         session ?selfv1 = Some sessv1 \<and>
         session (snd (VAPEC_evaluate api junk' ?selfv1 x K' kT' abund' z)) =
           Some (snd (return_spectrum api kT'
                   (set_abund api
                      [3, 4, 5, 6, 7, 8, 9, 10, 11, 12, 13, 14, 16, 17, 18, 19, 20, 21, 22,
               23, 24, 25, 26, 27, 28, 29, 30] abund'
                      (set_response api eb True sessv1))))"
    using bin_edges_closed[OF l, of junk z] s1 s2 v1 v2 by blast
qed

theorem bin_edges_not_persisted_witness:
  "bin_edges (\<lambda>_. NaN) [Finite False 1, Finite False 3] (Finite False 0)
     = bin_edges (\<lambda>_. Finite False 7) [Finite False 1, Finite False 3] (Finite False 0) \<and>
   snd (APEC_evaluate (recording_session (\<lambda>_ _. [Finite False 8, Finite False 6])) (\<lambda>_. NaN)
          \<lparr>session = None\<rparr> [Finite False 1, Finite False 3]
          (Finite False 3) (Finite False 1) (Finite False 1) (Finite False 0)) = \<lparr>session = None\<rparr> \<and>
   session (snd (APEC_evaluate (recording_session (\<lambda>_ _. [Finite False 8, Finite False 6]))
      (\<lambda>_. Finite False 7)
      (snd (APEC_evaluate (recording_session (\<lambda>_ _. [Finite False 8, Finite False 6])) (\<lambda>_. NaN)
              \<lparr>session = Some [New ''AG89'']\<rparr> [Finite False 1, Finite False 3]
              (Finite False 3) (Finite False 1) (Finite False 1) (Finite False 0)))
      [Finite False 1, Finite False 3] (Finite False 5) (Finite False 2) (Finite False 4) (Finite False 0)))
    = Some [New ''AG89'',
            SetResponse [Finite False 0, Finite False 2, Finite False 4] True,
            SetAbund [6, 7, 8, 9, 10, 11, 12, 13, 14, 16, 17, 18, 19, 20, 21, 22, 23, 24,
               25, 26, 27, 28, 29, 30] (Finite False 1),
            ReturnSpectrum (Finite False 1),
            SetResponse [Finite False 0, Finite False 2, Finite False 4] True,
            SetAbund [6, 7, 8, 9, 10, 11, 12, 13, 14, 16, 17, 18, 19, 20, 21, 22, 23, 24,
               25, 26, 27, 28, 29, 30] (Finite False 4),
            ReturnSpectrum (Finite False 2)]"
proof -
  let ?x = "[Finite False 1, Finite False 3]"
  let ?z = "Finite False 0"
  let ?api = "recording_session (\<lambda>_ _. [Finite False 8, Finite False 6])"
  let ?self = "\<lparr>session = Some [New ''AG89'']\<rparr>"
  let ?none = "\<lparr>session = None\<rparr> :: call list APEC"
  let ?eb = "[Finite False 0, Finite False 2, Finite False 4]"
  note t = bin_edges_not_persisted[of "\<lambda>_. NaN" ?x ?z "\<lambda>_. Finite False 7" ?api ?self
      "Finite False 3" "Finite False 1" "Finite False 1" "Finite False 5" "Finite False 2" "Finite False 4"]
  note n = bin_edges_not_persisted[of "\<lambda>_. NaN" ?x ?z "\<lambda>_. Finite False 7" ?api ?none
      "Finite False 3" "Finite False 1" "Finite False 1" "Finite False 5" "Finite False 2" "Finite False 4"]
  have a: "bin_edges (\<lambda>_. NaN) ?x ?z = bin_edges (\<lambda>_. Finite False 7) ?x ?z"
    using t by blast
  have sn: "session ?none = None" by simp
  have b: "snd (APEC_evaluate ?api (\<lambda>_. NaN) ?none ?x
          (Finite False 3) (Finite False 1) (Finite False 1) ?z) = ?none"
    using n sn by blast
  have h: "session ?self = Some [New ''AG89''] \<and> 2 \<le> length ?x" by simp
  obtain eb bs sess1 where
    e: "bin_edges (\<lambda>_. NaN) ?x ?z = Inr (eb, bs)"
      "sess1 = snd (return_spectrum ?api (Finite False 1)
                   (set_abund ?api
                      [6, 7, 8, 9, 10, 11, 12, 13, 14, 16, 17, 18, 19, 20, 21, 22, 23, 24,
               25, 26, 27, 28, 29, 30] (Finite False 1)
                      (set_response ?api eb True [New ''AG89''])))"
      "session (snd (APEC_evaluate ?api (\<lambda>_. Finite False 7)
                    (snd (APEC_evaluate ?api (\<lambda>_. NaN) ?self ?x
                            (Finite False 3) (Finite False 1) (Finite False 1) ?z))
                    ?x (Finite False 5) (Finite False 2) (Finite False 4) ?z)) =
           Some (snd (return_spectrum ?api (Finite False 2)
                   (set_abund ?api
                      [6, 7, 8, 9, 10, 11, 12, 13, 14, 16, 17, 18, 19, 20, 21, 22, 23, 24,
               25, 26, 27, 28, 29, 30] (Finite False 4)
                      (set_response ?api eb True sess1))))"
    using t h by blast
  have eb: "eb = ?eb" using e(1) by (simp add: bin_edges_1_3)
  have c: "session (snd (APEC_evaluate ?api (\<lambda>_. Finite False 7)
                    (snd (APEC_evaluate ?api (\<lambda>_. NaN) ?self ?x
                            (Finite False 3) (Finite False 1) (Finite False 1) ?z))
                    ?x (Finite False 5) (Finite False 2) (Finite False 4) ?z)) =
      Some [New ''AG89'', SetResponse ?eb True,
            SetAbund [6, 7, 8, 9, 10, 11, 12, 13, 14, 16, 17, 18, 19, 20, 21, 22, 23, 24,
               25, 26, 27, 28, 29, 30] (Finite False 1),
            ReturnSpectrum (Finite False 1),
            SetResponse ?eb True,
            SetAbund [6, 7, 8, 9, 10, 11, 12, 13, 14, 16, 17, 18, 19, 20, 21, 22, 23, 24,
               25, 26, 27, 28, 29, 30] (Finite False 4),
            ReturnSpectrum (Finite False 2)]"
    unfolding e(3) e(2) eb by (simp add: recording_session_def)
  show ?thesis using a b c by blast
qed

subsection \<open>PhAbs and TbAbs\<close>

lemma PhAbs_init_xsect_open:
  "\<exists>path pre. PhAbs_init_xsect udp files self t = open_xsect files path pre self"
  unfolding PhAbs_init_xsect_def Let_def by (auto split: if_splits)

lemma TbAbs_init_xsect_open:
  "\<exists>path pre. TbAbs_init_xsect udp files self t = open_xsect files path pre self"
  unfolding TbAbs_init_xsect_def Let_def by (auto split: if_splits)

text \<open>
  C7. \<open>PhAbs.evaluate\<close> and \<open>TbAbs.evaluate\<close> are the same function: on every instance,
  loaded or not, every grid and every \<open>NH\<close> they give the same outcome and leave the same
  instance. Both \<open>init_xsect\<close> are the same loading of a table, \<open>open_xsect\<close>, and differ
  in the path of the file they give it (and the line printed before).
\<close>

theorem PhAbs_TbAbs_evaluate_equal:
  "PhAbs_evaluate np_exp self x NH = TbAbs_evaluate np_exp self x NH \<and>
   (\<exists>path pre. PhAbs_init_xsect udp files self t = open_xsect files path pre self) \<and>
   (\<exists>path pre. TbAbs_init_xsect udp files self t = open_xsect files path pre self)"
  using PhAbs_init_xsect_open[of udp files self t] TbAbs_init_xsect_open[of udp files self t]
  by (simp add: PhAbs_evaluate_def TbAbs_evaluate_def)

lemma open_xsect_loaded:
  assumes "files path = Some fxs" "hdu_get fxs 1 = Inr h" "data h = Some dxs"
    "dxs ''ENERGY'' = Some en" "dxs ''SIGMA'' = Some sg"
  shows "open_xsect files path pre self =
     (Inr (), self\<lparr>xsect_ene := Array en, xsect_val := Array sg\<rparr>, pre @ [Open path])"
  using assms by (simp add: open_xsect_def fits_open_def)

lemma open_xsect_events: "snd (snd (open_xsect files path pre self)) = pre @ [Open path]"
  by (simp add: open_xsect_def split: sum.split option.split)

lemma open_xsect_success:
  assumes "fst (open_xsect files path pre self) = Inr ()"
  shows "\<exists>fxs h dxs en sg. files path = Some fxs \<and> hdu_get fxs 1 = Inr h \<and> data h = Some dxs \<and>
     dxs ''ENERGY'' = Some en \<and> dxs ''SIGMA'' = Some sg \<and>
     fst (snd (open_xsect files path pre self)) = self\<lparr>xsect_ene := Array en, xsect_val := Array sg\<rparr>"
  using assms
  by (auto simp: open_xsect_def fits_open_def split: sum.splits option.splits)

lemma PhAbs_evaluate_frame: "snd (PhAbs_evaluate np_exp self x NH) = self"
  by (simp add: PhAbs_evaluate_def split: attr.split)

lemma TbAbs_evaluate_frame: "snd (TbAbs_evaluate np_exp self x NH) = self"
  by (simp add: TbAbs_evaluate_def split: attr.split)

lemma PhAbs_init_xsect_path:
  "PhAbs_init_xsect udp files self t =
     open_xsect files
       (os_path_join udp ''xsect'' @
          (if t = ''ASPL'' then ''/xsect_phabs_aspl.fits'' else ''/xsect_phabs_angr.fits''))
       (if t = ''AG89'' \<or> t = ''ASPL'' then []
        else [Print (''Unknown abundace table '' @ t @ '', reverting to AG89'')]) self"
  by (simp add: PhAbs_init_xsect_def Let_def)

lemma TbAbs_init_xsect_path:
  "TbAbs_init_xsect udp files self t =
     open_xsect files
       (os_path_join udp ''xsect'' @
          (if t = ''AG89'' then ''/xsect_tbabs_angr.fits''
           else if t = ''ASPL'' then ''/xsect/xsect_tbabs_aspl.fits''
           else ''/xsect/xsect_tbabs_wilm.fits''))
       (if t = ''AG89'' \<or> t = ''ASPL'' \<or> t = ''WILM'' then []
        else [Print (''Unknown abundace table '' @ t @ '', reverting to WILM'')]) self"
  by (simp add: TbAbs_init_xsect_def Let_def)

lemma hdu_get_1: "hdu_get fxs 1 = (if 1 < length fxs then Inr (fxs ! 1) else Inl IndexError)"
  by (auto simp: hdu_get_def py_index_def)

lemma open_xsect_once:
  assumes "filter (\<lambda>e. case e of Open p \<Rightarrow> True | Print m \<Rightarrow> False) pre = []"
  shows "filter (\<lambda>e. case e of Open p \<Rightarrow> True | Print m \<Rightarrow> False)
           (snd (snd (open_xsect files path pre self))) = [Open path] \<and>
     (\<forall>fxs dxs en sg.
        files path = Some fxs \<and> 1 < length fxs \<and> data (fxs ! 1) = Some dxs \<and>
        dxs ''ENERGY'' = Some en \<and> dxs ''SIGMA'' = Some sg \<longrightarrow>
        fst (open_xsect files path pre self) = Inr () \<and>
        fst (snd (open_xsect files path pre self)) =
          self\<lparr>xsect_ene := Array en, xsect_val := Array sg\<rparr>) \<and>
     (fst (open_xsect files path pre self) = Inr () \<longrightarrow>
        (\<exists>fxs dxs en sg.
           files path = Some fxs \<and> 1 < length fxs \<and> data (fxs ! 1) = Some dxs \<and>
           dxs ''ENERGY'' = Some en \<and> dxs ''SIGMA'' = Some sg \<and>
           fst (snd (open_xsect files path pre self)) =
             self\<lparr>xsect_ene := Array en, xsect_val := Array sg\<rparr>))"
proof (intro conjI allI impI)
  show "filter (\<lambda>e. case e of Open p \<Rightarrow> True | Print m \<Rightarrow> False)
           (snd (snd (open_xsect files path pre self))) = [Open path]"
    using assms by (simp add: open_xsect_events)
next
  fix fxs dxs en sg
  assume a: "files path = Some fxs \<and> 1 < length fxs \<and> data (fxs ! 1) = Some dxs \<and>
        dxs ''ENERGY'' = Some en \<and> dxs ''SIGMA'' = Some sg"
  then have "hdu_get fxs 1 = Inr (fxs ! 1)" by (simp add: hdu_get_1)
  then have "open_xsect files path pre self =
     (Inr (), self\<lparr>xsect_ene := Array en, xsect_val := Array sg\<rparr>, pre @ [Open path])"
    using a open_xsect_loaded[of files path fxs "fxs ! 1" dxs en sg pre self] by simp
  then show "fst (open_xsect files path pre self) = Inr ()"
    "fst (snd (open_xsect files path pre self)) = self\<lparr>xsect_ene := Array en, xsect_val := Array sg\<rparr>"
    by simp_all
next
  assume "fst (open_xsect files path pre self) = Inr ()"
  then obtain fxs h dxs en sg where
    o: "files path = Some fxs" "hdu_get fxs 1 = Inr h" "data h = Some dxs"
      "dxs ''ENERGY'' = Some en" "dxs ''SIGMA'' = Some sg"
      "fst (snd (open_xsect files path pre self)) = self\<lparr>xsect_ene := Array en, xsect_val := Array sg\<rparr>"
    using open_xsect_success by blast
  have "1 < length fxs \<and> h = fxs ! 1"
    using o(2) by (simp add: hdu_get_1 split: if_splits)
  then show "\<exists>fxs dxs en sg.
           files path = Some fxs \<and> 1 < length fxs \<and> data (fxs ! 1) = Some dxs \<and>
           dxs ''ENERGY'' = Some en \<and> dxs ''SIGMA'' = Some sg \<and>
           fst (snd (open_xsect files path pre self)) =
             self\<lparr>xsect_ene := Array en, xsect_val := Array sg\<rparr>"
    using o by blast
qed

text \<open>
  C5. A call of \<open>init_xsect\<close>, of PhAbs or of TbAbs, opens one file, once. If the file
  exists and the data of its first extension (the unit at index 1) has the columns
  \<open>ENERGY\<close> and \<open>SIGMA\<close>, the call returns normally and leaves an instance whose
  \<open>xsect_ene\<close> and \<open>xsect_val\<close> are these two columns; and whenever the call returns
  normally this is what it has done. An evaluation, on any instance, grid and \<open>NH\<close>,
  returns the instance it was given: \<open>xsect_ene\<close> and \<open>xsect_val\<close> are as before.
\<close>

theorem xsect_table_loaded_once:
  "(\<exists>path.
      filter (\<lambda>e. case e of Open p \<Rightarrow> True | Print m \<Rightarrow> False)
        (snd (snd (PhAbs_init_xsect udp files self t))) = [Open path] \<and>
      (\<forall>fxs dxs en sg.
         files path = Some fxs \<and> 1 < length fxs \<and> data (fxs ! 1) = Some dxs \<and>
         dxs ''ENERGY'' = Some en \<and> dxs ''SIGMA'' = Some sg \<longrightarrow>
         fst (PhAbs_init_xsect udp files self t) = Inr () \<and>
         fst (snd (PhAbs_init_xsect udp files self t)) =
           self\<lparr>xsect_ene := Array en, xsect_val := Array sg\<rparr>) \<and>
      (fst (PhAbs_init_xsect udp files self t) = Inr () \<longrightarrow>
         (\<exists>fxs dxs en sg.
            files path = Some fxs \<and> 1 < length fxs \<and> data (fxs ! 1) = Some dxs \<and>
            dxs ''ENERGY'' = Some en \<and> dxs ''SIGMA'' = Some sg \<and>
            fst (snd (PhAbs_init_xsect udp files self t)) =
              self\<lparr>xsect_ene := Array en, xsect_val := Array sg\<rparr>))) \<and>
   (\<exists>path.
      filter (\<lambda>e. case e of Open p \<Rightarrow> True | Print m \<Rightarrow> False)
        (snd (snd (TbAbs_init_xsect udp files self t))) = [Open path] \<and>
      (\<forall>fxs dxs en sg.
         files path = Some fxs \<and> 1 < length fxs \<and> data (fxs ! 1) = Some dxs \<and>
         dxs ''ENERGY'' = Some en \<and> dxs ''SIGMA'' = Some sg \<longrightarrow>
         fst (TbAbs_init_xsect udp files self t) = Inr () \<and>
         fst (snd (TbAbs_init_xsect udp files self t)) =
           self\<lparr>xsect_ene := Array en, xsect_val := Array sg\<rparr>) \<and>
      (fst (TbAbs_init_xsect udp files self t) = Inr () \<longrightarrow>
         (\<exists>fxs dxs en sg.
            files path = Some fxs \<and> 1 < length fxs \<and> data (fxs ! 1) = Some dxs \<and>
            dxs ''ENERGY'' = Some en \<and> dxs ''SIGMA'' = Some sg \<and>
            fst (snd (TbAbs_init_xsect udp files self t)) =
              self\<lparr>xsect_ene := Array en, xsect_val := Array sg\<rparr>))) \<and>
   snd (PhAbs_evaluate np_exp inst x NH) = inst \<and>
   snd (TbAbs_evaluate np_exp inst x NH) = inst"
proof (intro conjI)
  show "\<exists>path.
      filter (\<lambda>e. case e of Open p \<Rightarrow> True | Print m \<Rightarrow> False)
        (snd (snd (PhAbs_init_xsect udp files self t))) = [Open path] \<and>
      (\<forall>fxs dxs en sg.
         files path = Some fxs \<and> 1 < length fxs \<and> data (fxs ! 1) = Some dxs \<and>
         dxs ''ENERGY'' = Some en \<and> dxs ''SIGMA'' = Some sg \<longrightarrow>
         fst (PhAbs_init_xsect udp files self t) = Inr () \<and>
         fst (snd (PhAbs_init_xsect udp files self t)) =
           self\<lparr>xsect_ene := Array en, xsect_val := Array sg\<rparr>) \<and>
      (fst (PhAbs_init_xsect udp files self t) = Inr () \<longrightarrow>
         (\<exists>fxs dxs en sg.
            files path = Some fxs \<and> 1 < length fxs \<and> data (fxs ! 1) = Some dxs \<and>
            dxs ''ENERGY'' = Some en \<and> dxs ''SIGMA'' = Some sg \<and>
            fst (snd (PhAbs_init_xsect udp files self t)) =
              self\<lparr>xsect_ene := Array en, xsect_val := Array sg\<rparr>))"
    unfolding PhAbs_init_xsect_path
    by (rule exI, rule open_xsect_once) simp
  show "\<exists>path.
      filter (\<lambda>e. case e of Open p \<Rightarrow> True | Print m \<Rightarrow> False)
        (snd (snd (TbAbs_init_xsect udp files self t))) = [Open path] \<and>
      (\<forall>fxs dxs en sg.
         files path = Some fxs \<and> 1 < length fxs \<and> data (fxs ! 1) = Some dxs \<and>
         dxs ''ENERGY'' = Some en \<and> dxs ''SIGMA'' = Some sg \<longrightarrow>
         fst (TbAbs_init_xsect udp files self t) = Inr () \<and>
         fst (snd (TbAbs_init_xsect udp files self t)) =
           self\<lparr>xsect_ene := Array en, xsect_val := Array sg\<rparr>) \<and>
      (fst (TbAbs_init_xsect udp files self t) = Inr () \<longrightarrow>
         (\<exists>fxs dxs en sg.
            files path = Some fxs \<and> 1 < length fxs \<and> data (fxs ! 1) = Some dxs \<and>
            dxs ''ENERGY'' = Some en \<and> dxs ''SIGMA'' = Some sg \<and>
            fst (snd (TbAbs_init_xsect udp files self t)) =
              self\<lparr>xsect_ene := Array en, xsect_val := Array sg\<rparr>))"
    unfolding TbAbs_init_xsect_path
    by (rule exI, rule open_xsect_once) simp
  show "snd (PhAbs_evaluate np_exp inst x NH) = inst" by (rule PhAbs_evaluate_frame)
  show "snd (TbAbs_evaluate np_exp inst x NH) = inst" by (rule TbAbs_evaluate_frame)
qed

theorem xsect_table_loaded_once_witness:
  "PhAbs_init_xsect ''/data''
     [''/data/xsect/xsect_phabs_angr.fits'' \<mapsto>
        [\<lparr>data = None\<rparr>,
         \<lparr>data = Some [''ENERGY'' \<mapsto> [Finite False 1, Finite False 2],
                       ''SIGMA'' \<mapsto> [Finite False 3, Finite False 4]]\<rparr>]]
     \<lparr>xsect_ene = Unset, xsect_val = Unset\<rparr> ''AG89''
   = (Inr (),
      \<lparr>xsect_ene = Array [Finite False 1, Finite False 2],
        xsect_val = Array [Finite False 3, Finite False 4]\<rparr>,
      [Open ''/data/xsect/xsect_phabs_angr.fits'']) \<and>
   snd (PhAbs_evaluate (\<lambda>v. v)
          \<lparr>xsect_ene = Array [Finite False 1, Finite False 2],
            xsect_val = Array [Finite False 3, Finite False 4]\<rparr> [Finite False 1] (Finite False 1))
   = \<lparr>xsect_ene = Array [Finite False 1, Finite False 2],
       xsect_val = Array [Finite False 3, Finite False 4]\<rparr>"
proof -
  let ?p = "''/data/xsect/xsect_phabs_angr.fits''"
  let ?dxs = "[''ENERGY'' \<mapsto> [Finite False 1, Finite False 2],
               ''SIGMA'' \<mapsto> [Finite False 3, Finite False 4]]"
  let ?fxs = "[\<lparr>data = None\<rparr>, \<lparr>data = Some ?dxs\<rparr>]"
  let ?files = "[?p \<mapsto> ?fxs]"
  let ?self = "\<lparr>xsect_ene = Unset, xsect_val = Unset\<rparr>"
  let ?loaded = "\<lparr>xsect_ene = Array [Finite False 1, Finite False 2],
                  xsect_val = Array [Finite False 3, Finite False 4]\<rparr>"
  let ?r = "PhAbs_init_xsect ''/data'' ?files ?self ''AG89''"
  note t = xsect_table_loaded_once[of "''/data''" ?files ?self "''AG89''" "\<lambda>v. v" ?loaded
      "[Finite False 1]" "Finite False 1"]
  obtain path where
    p: "filter (\<lambda>e. case e of Open p \<Rightarrow> True | Print m \<Rightarrow> False) (snd (snd ?r)) = [Open path]"
    and l: "\<forall>fxs dxs en sg.
         ?files path = Some fxs \<and> 1 < length fxs \<and> data (fxs ! 1) = Some dxs \<and>
         dxs ''ENERGY'' = Some en \<and> dxs ''SIGMA'' = Some sg \<longrightarrow>
         fst ?r = Inr () \<and> fst (snd ?r) = ?self\<lparr>xsect_ene := Array en, xsect_val := Array sg\<rparr>"
    using t by blast
  have ev: "snd (snd ?r) = [Open ?p]"
    by (simp add: PhAbs_init_xsect_path open_xsect_events os_path_join_def)
  have path: "path = ?p" using p unfolding ev by simp
  have h: "?files ?p = Some ?fxs \<and> 1 < length ?fxs \<and> data (?fxs ! 1) = Some ?dxs \<and>
      ?dxs ''ENERGY'' = Some [Finite False 1, Finite False 2] \<and>
      ?dxs ''SIGMA'' = Some [Finite False 3, Finite False 4]"
    by simp
  have "fst ?r = Inr () \<and> fst (snd ?r) = ?self\<lparr>xsect_ene := Array [Finite False 1, Finite False 2],
      xsect_val := Array [Finite False 3, Finite False 4]\<rparr>"
    using l[unfolded path, rule_format, OF h] .
  then have a: "?r = (Inr (), ?loaded, [Open ?p])"
    using ev by (simp add: prod_eq_iff)
  have b: "snd (PhAbs_evaluate (\<lambda>v. v) ?loaded [Finite False 1] (Finite False 1)) = ?loaded"
    using t by blast
  show ?thesis using a b by blast
qed

lemma open_xsect_pre:
  "fst (open_xsect files path pre self) = fst (open_xsect files path [] self)"
  "fst (snd (open_xsect files path pre self)) = fst (snd (open_xsect files path [] self))"
  by (simp_all add: open_xsect_def split: sum.split option.split)

lemma os_path_join_xsect:
  assumes "udp \<noteq> []" "last udp \<noteq> CHR ''/''"
  shows "os_path_join udp ''xsect'' = udp @ ''/xsect''"
  using assms by (simp add: os_path_join_def)



subsection \<open>Redshift and the bin edges\<close>

lemma is_f64_round_signed: "is_f64 (round_signed zs v)"
  by (simp add: round_signed_def is_f64_f64_round) (simp add: is_f64_def)

lemma is_f64_fadd: "is_f64 (fadd a b)"
  by (cases a; cases b) (simp_all add: is_f64_round_signed, simp_all add: is_f64_def)

lemma is_f64_fmul:
  assumes "is_f64 a" "is_f64 b"
  shows "is_f64 (fmul a b)"
proof (cases a)
  case (Finite s m)
  show ?thesis
  proof (cases b)
    case (Finite t k)
    then have "0 \<le> m * k" using assms \<open>a = Finite s m\<close> by (simp add: is_f64_def)
    then show ?thesis using Finite \<open>a = Finite s m\<close> by (simp add: is_f64_f64_round)
  qed (simp_all add: Finite is_f64_def)
qed (cases b; simp add: is_f64_def)+

lemma is_f64_redshifted:
  assumes "list_all is_f64 x"
  shows "list_all is_f64 (redshifted x z)"
  using assms by (simp add: redshifted_def list_all_iff is_f64_fmul is_f64_fadd del: fmul.simps fadd.simps)

text \<open>
  C10. The bin edges depend on the grid and the redshift through \<open>xz = x * (1 + z)\<close>
  only: for an array \<open>x\<close> of doubles, the bin-edge passage at redshift \<open>z\<close> gives what it
  gives at redshift \<open>0\<close> for the grid \<open>x * (1 + z)\<close>, edges and bin sizes alike (and fails
  alike on a grid of fewer than two points). The edges at redshift \<open>z\<close> are not
  \<open>1 + z\<close> times the edges at redshift \<open>0\<close>: rounding does not commute with the
  multiplication.
\<close>

theorem bin_edges_of_redshifted_grid:
  assumes "list_all is_f64 x"
  shows "bin_edges junk x z = bin_edges junk (redshifted x z) (Finite False 0)"
proof -
  have "redshifted (redshifted x z) (Finite False 0) = redshifted x z"
    by (rule redshifted_zero[OF is_f64_redshifted[OF assms]])
  then show ?thesis by (simp add: bin_edges_def)
qed

theorem bin_edges_of_redshifted_grid_witness:
  "bin_edges (\<lambda>_. NaN) [Finite False 1, Finite False 2, Finite False 4] (Finite False 1)
     = bin_edges (\<lambda>_. NaN) [Finite False 2, Finite False 4, Finite False 8] (Finite False 0)"
proof -
  let ?x = "[Finite False 1, Finite False 2, Finite False 4]"
  have v: "list_all is_f64 ?x" by (simp add: is_f64_def)
  have xz: "redshifted ?x (Finite False 1) = [Finite False 2, Finite False 4, Finite False 8]"
    by (simp add: redshifted_def round_signed_def sval_def)
  show ?thesis
    using bin_edges_of_redshifted_grid[OF v, of "\<lambda>_. NaN" "Finite False 1"] unfolding xz .
qed

text \<open>
  The grid \<open>[0.30000000000000004, 0.4, 0.5]\<close> at redshift \<open>0.1\<close>: the last edge is
  \<open>0.605\<close>. At redshift \<open>0\<close> the last edge is \<open>0.55\<close>, and \<open>(1 + 0.1) * 0.55\<close> is
  \<open>0.6050000000000001\<close>.
\<close>

theorem bin_edges_of_redshifted_grid_counterexample:
  "\<exists>ebounds binsize ebounds0 binsize0.
     bin_edges (\<lambda>_. NaN)
       [Finite False (1351079888211149 / 4503599627370496),
      Finite False (3602879701896397 / 9007199254740992),
      Finite False (1 / 2)]
       (Finite False (3602879701896397 / 36028797018963968)) = Inr (ebounds, binsize) \<and>
     bin_edges (\<lambda>_. NaN)
       [Finite False (1351079888211149 / 4503599627370496),
      Finite False (3602879701896397 / 9007199254740992),
      Finite False (1 / 2)]
       (Finite False 0) = Inr (ebounds0, binsize0) \<and>
     ebounds ! 3 = Finite False (1362338887279575 / 2251799813685248) \<and>
     ebounds0 ! 3 = Finite False (2476979795053773 / 4503599627370496) \<and>
     fmul (fadd (float_literal 1) (Finite False (3602879701896397 / 36028797018963968))) (ebounds0 ! 3) = Finite False (5449355549118301 / 9007199254740992)"
proof -
  let ?x = "[Finite False (1351079888211149 / 4503599627370496),
      Finite False (3602879701896397 / 9007199254740992),
      Finite False (1 / 2)]"
  let ?z = "Finite False (3602879701896397 / 36028797018963968)"
  have c1: "is_f64 (Finite False (1351079888211149 / 4503599627370496))"
    using round_mag_exact[of 1351079888211149 "-52"] by (simp add: is_f64_def)
  have c2: "is_f64 (Finite False (3602879701896397 / 9007199254740992))"
    using round_mag_exact[of 3602879701896397 "-53"] by (simp add: is_f64_def)
  have c3: "is_f64 (Finite False (1 / 2))"
    using round_mag_exact[of 1 "-1"] by (simp add: is_f64_def)
  have c4r: "f64_round False (39631676720860365 / 36028797018963968) = Finite False (2476979795053773 / 2251799813685248)"
    by (rule f64_round_eval[where e = "0"]) (simp_all add: rne_def Let_def)
  have c4: "fadd (Finite False 1) (Finite False (3602879701896397 / 36028797018963968)) = Finite False (2476979795053773 / 2251799813685248)"
    using c4r by (simp add: round_signed_def sval_def fsub_def)
  have c5r: "f64_round False (8924260225606736202508689955881 / 20282409603651670423947251286016) = Finite False (3963167672086037 / 9007199254740992)"
    by (rule f64_round_eval[where e = "-2"]) (simp_all add: rne_def Let_def)
  have c5: "fmul (Finite False (3602879701896397 / 9007199254740992)) (Finite False (2476979795053773 / 2251799813685248)) = Finite False (3963167672086037 / 9007199254740992)"
    using c5r by (simp add: round_signed_def sval_def fsub_def)
  have c6r: "f64_round False (2476979795053773 / 4503599627370496) = Finite False (2476979795053773 / 4503599627370496)"
    by (rule f64_round_eval[where e = "-1"]) (simp_all add: rne_def Let_def)
  have c6: "fmul (Finite False (1 / 2)) (Finite False (2476979795053773 / 2251799813685248)) = Finite False (2476979795053773 / 4503599627370496)"
    using c6r by (simp add: round_signed_def sval_def fsub_def)
  have c7r: "f64_round False (8917127262193583 / 9007199254740992) = Finite False (8917127262193583 / 9007199254740992)"
    by (rule f64_round_eval[where e = "-1"]) (simp_all add: rne_def Let_def)
  have c7: "fadd (Finite False (2476979795053773 / 4503599627370496)) (Finite False (3963167672086037 / 9007199254740992)) = Finite False (8917127262193583 / 9007199254740992)"
    using c7r by (simp add: round_signed_def sval_def fsub_def)
  have c8r: "f64_round False (8917127262193583 / 18014398509481984) = Finite False (8917127262193583 / 18014398509481984)"
    by (rule f64_round_eval[where e = "-2"]) (simp_all add: rne_def Let_def)
  have c8: "fdiv (Finite False (8917127262193583 / 9007199254740992)) (Finite False 2) = Finite False (8917127262193583 / 18014398509481984)"
    using c8r by (simp add: round_signed_def sval_def fsub_def)
  have c9r: "f64_round False (990791918021509 / 18014398509481984) = Finite False (990791918021509 / 18014398509481984)"
    by (rule f64_round_eval[where e = "-5"]) (simp_all add: rne_def Let_def)
  have c9: "fsub (Finite False (2476979795053773 / 4503599627370496)) (Finite False (8917127262193583 / 18014398509481984)) = Finite False (990791918021509 / 18014398509481984)"
    using c9r by (simp add: round_signed_def sval_def fsub_def)
  have c10r: "f64_round False (10898711098236601 / 18014398509481984) = Finite False (1362338887279575 / 2251799813685248)"
    by (rule f64_round_eval[where e = "-1"]) (simp_all add: rne_def Let_def)
  have c10: "fadd (Finite False (2476979795053773 / 4503599627370496)) (Finite False (990791918021509 / 18014398509481984)) = Finite False (1362338887279575 / 2251799813685248)"
    using c10r by (simp add: round_signed_def sval_def fsub_def)
  have c11r: "f64_round False (8106479329266893 / 9007199254740992) = Finite False (8106479329266893 / 9007199254740992)"
    by (rule f64_round_eval[where e = "-1"]) (simp_all add: rne_def Let_def)
  have c11: "fadd (Finite False (1 / 2)) (Finite False (3602879701896397 / 9007199254740992)) = Finite False (8106479329266893 / 9007199254740992)"
    using c11r by (simp add: round_signed_def sval_def fsub_def)
  have c12r: "f64_round False (8106479329266893 / 18014398509481984) = Finite False (8106479329266893 / 18014398509481984)"
    by (rule f64_round_eval[where e = "-2"]) (simp_all add: rne_def Let_def)
  have c12: "fdiv (Finite False (8106479329266893 / 9007199254740992)) (Finite False 2) = Finite False (8106479329266893 / 18014398509481984)"
    using c12r by (simp add: round_signed_def sval_def fsub_def)
  have c13r: "f64_round False (900719925474099 / 18014398509481984) = Finite False (900719925474099 / 18014398509481984)"
    by (rule f64_round_eval[where e = "-5"]) (simp_all add: rne_def Let_def)
  have c13: "fsub (Finite False (1 / 2)) (Finite False (8106479329266893 / 18014398509481984)) = Finite False (900719925474099 / 18014398509481984)"
    using c13r by (simp add: round_signed_def sval_def fsub_def)
  have c14r: "f64_round False (9907919180215091 / 18014398509481984) = Finite False (2476979795053773 / 4503599627370496)"
    by (rule f64_round_eval[where e = "-1"]) (simp_all add: rne_def Let_def)
  have c14: "fadd (Finite False (1 / 2)) (Finite False (900719925474099 / 18014398509481984)) = Finite False (2476979795053773 / 4503599627370496)"
    using c14r by (simp add: round_signed_def sval_def fsub_def)
  have c15r: "f64_round False (6135428905104631294035961535529 / 10141204801825835211973625643008) = Finite False (5449355549118301 / 9007199254740992)"
    by (rule f64_round_eval[where e = "-1"]) (simp_all add: rne_def Let_def)
  have c15: "fmul (Finite False (2476979795053773 / 2251799813685248)) (Finite False (2476979795053773 / 4503599627370496)) = Finite False (5449355549118301 / 9007199254740992)"
    using c15r by (simp add: round_signed_def sval_def fsub_def)
  have v: "list_all is_f64 ?x" using c1 c2 c3 by simp
  have x0: "redshifted ?x (Finite False 0) = ?x" by (rule redshifted_zero[OF v])
  have len: "2 \<le> length ?x" by simp
  let ?xz = "[Finite False (185773484629033 / 562949953421312),
      Finite False (3963167672086037 / 9007199254740992),
      Finite False (2476979795053773 / 4503599627370496)]"
  have d1r: "f64_round False (3346597584602526385563233115177 / 10141204801825835211973625643008) = Finite False (185773484629033 / 562949953421312)"
    by (rule f64_round_eval[where e = "-2"]) (simp_all add: rne_def Let_def)
  have d1: "fmul (Finite False (1351079888211149 / 4503599627370496)) (Finite False (2476979795053773 / 2251799813685248)) = Finite False (185773484629033 / 562949953421312)"
    using d1r by (simp add: round_signed_def sval_def fsub_def)
  have xz: "redshifted ?x ?z = ?xz"
    by (simp add: redshifted_def d1 c4 c5 c6 c7 c8 c9 c10 c11 c12 c13 c14 c15 del: fadd.simps fmul.simps fdiv.simps)
  have len': "2 \<le> length ?xz" by simp
  have a: "bin_edges (\<lambda>_. NaN) ?x ?z = Inr (ebounds_cf ?xz, binsize_cf ?xz)"
    using bin_edges_closed[OF len, of "\<lambda>_. NaN" ?z] unfolding xz .
  have b: "bin_edges (\<lambda>_. NaN) ?x (Finite False 0) = Inr (ebounds_cf ?x, binsize_cf ?x)"
    using bin_edges_closed[OF len, of "\<lambda>_. NaN" "Finite False 0"] unfolding x0 .
  have l: "ebounds_cf ?xz ! 3 = Finite False (1362338887279575 / 2251799813685248)"
    using ebounds_cf_last[OF len']
    by (simp add: numeral_3_eq_3 c4 c5 c6 c7 c8 c9 c10 c11 c12 c13 c14 c15 del: fadd.simps fmul.simps fdiv.simps)
  have l0: "ebounds_cf ?x ! 3 = Finite False (2476979795053773 / 4503599627370496)"
    using ebounds_cf_last[OF len]
    by (simp add: numeral_3_eq_3 c4 c5 c6 c7 c8 c9 c10 c11 c12 c13 c14 c15 del: fadd.simps fmul.simps fdiv.simps)
  have alt: "fmul (fadd (float_literal 1) ?z) (ebounds_cf ?x ! 3) = Finite False (5449355549118301 / 9007199254740992)"
    unfolding l0 by (simp add: c4 c5 c6 c7 c8 c9 c10 c11 c12 c13 c14 c15 del: fadd.simps fmul.simps fdiv.simps)
  show ?thesis using a b l l0 alt by blast
qed

end
